theory Spec2Isabelle
  imports Complex_Main
begin

section \<open>JavaScript values as the processors see them\<close>

text \<open>
  The video processors of the repository (\<^verbatim>\<open>VideoProcessor\<close>, \<^verbatim>\<open>RealVideoProcessor\<close>,
  \<^verbatim>\<open>FreeVideoProcessor\<close>, \<^verbatim>\<open>ActualVideoProcessor\<close>) handle values that come out of
  \<^verbatim>\<open>JSON.parse\<close> and are typed \<^verbatim>\<open>any\<close>. Such a value is modelled by \<open>jsval\<close>.

  Numbers: a JavaScript number is a double. A finite double is a rational, so a finite number
  is \<open>Fin r\<close> with \<open>r :: rat\<close>; \<open>NaN\<close> and the two infinities are separate values. The two
  zeros are both \<open>Fin 0\<close> (they are equally falsy, and \<^verbatim>\<open>Math.max(-0, 0)\<close> is \<^verbatim>\<open>0\<close>).
  Comparisons, \<^verbatim>\<open>Math.min\<close> and \<^verbatim>\<open>Math.max\<close> are exact on doubles; sums, products and
  quotients are taken exactly here, whereas the runtime rounds them to the nearest double.

  Strings: a JavaScript string is a sequence of UTF-16 code units. The model uses \<open>string\<close>,
  whose characters are the code units below 256 (ASCII and Latin-1, which includes the degree
  sign \<open>CHR 0xB0\<close>).
\<close>

datatype jsnum = NaN | NegInf | Fin rat | PosInf

datatype jsval =
    Undefined
  | Null
  | Bool bool
  | Num jsnum
  | Str string
  | Arr "jsval list"
  | Obj "(string \<times> jsval) list"

text \<open>
  Values thrown: \<^verbatim>\<open>new Error(message)\<close> of the source, or a \<^verbatim>\<open>TypeError\<close> or
  \<^verbatim>\<open>SyntaxError\<close> of the runtime. The message of a runtime error is the engine's own text,
  written here as V8 words it; the source never inspects it, it only copies the message of a
  failure into the degraded report.
\<close>

datatype exn = Error string | TypeError string | SyntaxError string

text \<open>\<^verbatim>\<open>error.message\<close>\<close>

fun error_message :: "exn \<Rightarrow> string" where
  "error_message (Error m) = m"
| "error_message (TypeError m) = m"
| "error_message (SyntaxError m) = m"

text \<open>
  Built-in functions of the runtime that the source calls and that are not part of the
  repository are taken as parameters: \<^verbatim>\<open>JSON.parse\<close> (\<open>None\<close> when it throws),
  the conversion of a string to a number, the text of a number, \<^verbatim>\<open>parseFloat\<close> on a
  string, and \<^verbatim>\<open>new URL(s).hostname\<close> (\<open>None\<close> when the constructor throws).
  \<^verbatim>\<open>ActualVideoProcessor.extractVideoId\<close> is a pure function of the reference, computed by
  the regular-expression engine and the URL parser of the runtime; it never throws and answers
  \<^verbatim>\<open>'unknown'\<close> when it finds no identifier. Its result is read from the same record.
  Every theorem below holds for every such runtime.
\<close>

record runtime =
  JSON_parse :: "string \<Rightarrow> jsval option"
  StringToNumber :: "string \<Rightarrow> jsnum"
  NumberToString :: "jsnum \<Rightarrow> string"
  parseFloat :: "string \<Rightarrow> jsnum"
  URL_hostname :: "string \<Rightarrow> string option"
  extractVideoId :: "string \<Rightarrow> string"

fun truthy :: "jsval \<Rightarrow> bool" where
  "truthy Undefined = False"
| "truthy Null = False"
| "truthy (Bool b) = b"
| "truthy (Num n) = (n \<noteq> NaN \<and> n \<noteq> Fin 0)"
| "truthy (Str s) = (s \<noteq> [])"
| "truthy (Arr xs) = True"
| "truthy (Obj kvs) = True"

text \<open>\<^verbatim>\<open>a || b\<close>\<close>

definition js_or :: "jsval \<Rightarrow> jsval \<Rightarrow> jsval" where
  "js_or a b = (if truthy a then a else b)"

text \<open>
  \<^verbatim>\<open>v.name\<close> for a property name that no built-in prototype defines (the field names of the
  oracle's JSON): a \<^verbatim>\<open>TypeError\<close> on \<^verbatim>\<open>null\<close> and \<^verbatim>\<open>undefined\<close>, the own property of an
  object, \<^verbatim>\<open>undefined\<close> otherwise. An object lists its own properties, one entry per key.
\<close>

definition cannot_read :: "string \<Rightarrow> string \<Rightarrow> exn" where
  "cannot_read what k =
     TypeError (''Cannot read properties of '' @ what @ '' (reading '' @ [CHR 0x27] @ k @ [CHR 0x27] @ '')'')"

fun get_prop :: "jsval \<Rightarrow> string \<Rightarrow> exn + jsval" where
  "get_prop Undefined k = Inl (cannot_read ''undefined'' k)"
| "get_prop Null k = Inl (cannot_read ''null'' k)"
| "get_prop (Obj kvs) k = Inr (case map_of kvs k of None \<Rightarrow> Undefined | Some v \<Rightarrow> v)"
| "get_prop v k = Inr Undefined"

text \<open>\<^verbatim>\<open>v?.name\<close>\<close>

fun get_prop_opt :: "jsval \<Rightarrow> string \<Rightarrow> jsval" where
  "get_prop_opt (Obj kvs) k = (case map_of kvs k of None \<Rightarrow> Undefined | Some v \<Rightarrow> v)"
| "get_prop_opt v k = Undefined"

text \<open>\<^verbatim>\<open>v[0]\<close>\<close>

fun get_index0 :: "jsval \<Rightarrow> exn + jsval" where
  "get_index0 Undefined = Inl (cannot_read ''undefined'' ''0'')"
| "get_index0 Null = Inl (cannot_read ''null'' ''0'')"
| "get_index0 (Arr xs) = Inr (case xs of [] \<Rightarrow> Undefined | x # _ \<Rightarrow> x)"
| "get_index0 (Str s) = Inr (case s of [] \<Rightarrow> Undefined | c # _ \<Rightarrow> Str [c])"
| "get_index0 (Obj kvs) = Inr (case map_of kvs ''0'' of None \<Rightarrow> Undefined | Some v \<Rightarrow> v)"
| "get_index0 v = Inr Undefined"

text \<open>\<^verbatim>\<open>v?.[0]\<close>\<close>

fun get_index0_opt :: "jsval \<Rightarrow> jsval" where
  "get_index0_opt (Arr xs) = (case xs of [] \<Rightarrow> Undefined | x # _ \<Rightarrow> x)"
| "get_index0_opt (Str s) = (case s of [] \<Rightarrow> Undefined | c # _ \<Rightarrow> Str [c])"
| "get_index0_opt (Obj kvs) = (case map_of kvs ''0'' of None \<Rightarrow> Undefined | Some v \<Rightarrow> v)"
| "get_index0_opt v = Undefined"

text \<open>
  The conversion of a value to a string, as a template literal \<^verbatim>\<open>${v}\<close> performs it. A
  value parsed from JSON holds no function. An object therefore converts to
  \<^verbatim>\<open>"[object Object]"\<close> through the method it inherits, unless it has an own property
  \<^verbatim>\<open>toString\<close>: that property is not callable, the inherited \<^verbatim>\<open>valueOf\<close> returns the object
  itself, and the conversion throws a \<^verbatim>\<open>TypeError\<close>. An array converts to its elements'
  strings joined by commas, \<^verbatim>\<open>null\<close> counting as the empty string, and throws when an element
  does.
\<close>

fun ToString :: "runtime \<Rightarrow> jsval \<Rightarrow> exn + string"
  and join_elements :: "runtime \<Rightarrow> jsval list \<Rightarrow> exn + string" where
  "ToString rt Undefined = Inr ''undefined''"
| "ToString rt Null = Inr ''null''"
| "ToString rt (Bool b) = Inr (if b then ''true'' else ''false'')"
| "ToString rt (Num n) = Inr (NumberToString rt n)"
| "ToString rt (Str s) = Inr s"
| "ToString rt (Arr xs) = join_elements rt xs"
| "ToString rt (Obj kvs) =
     (if map_of kvs ''toString'' = None then Inr ''[object Object]''
      else Inl (TypeError ''Cannot convert object to primitive value''))"
| "join_elements rt [] = Inr []"
| "join_elements rt (x # xs) =
     (case (if x = Null \<or> x = Undefined then Inr [] else ToString rt x) of
        Inl e \<Rightarrow> Inl e
      | Inr s \<Rightarrow>
          if xs = [] then Inr s
          else (case join_elements rt xs of
                  Inl e \<Rightarrow> Inl e
                | Inr others \<Rightarrow> Inr (s @ '','' @ others)))"

text \<open>
  The conversion to a number that \<^verbatim>\<open>Math.max\<close> and \<^verbatim>\<open>Math.min\<close> apply to their arguments.
  An array or an object converts through its string, and throws where that conversion
  throws; \<^verbatim>\<open>"[object Object]"\<close> is no number.
\<close>

fun ToNumber :: "runtime \<Rightarrow> jsval \<Rightarrow> exn + jsnum" where
  "ToNumber rt Undefined = Inr NaN"
| "ToNumber rt Null = Inr (Fin 0)"
| "ToNumber rt (Bool b) = Inr (if b then Fin 1 else Fin 0)"
| "ToNumber rt (Num n) = Inr n"
| "ToNumber rt (Str s) = Inr (StringToNumber rt s)"
| "ToNumber rt (Arr xs) =
     (case ToString rt (Arr xs) of Inl e \<Rightarrow> Inl e | Inr s \<Rightarrow> Inr (StringToNumber rt s))"
| "ToNumber rt (Obj kvs) =
     (case ToString rt (Obj kvs) of Inl e \<Rightarrow> Inl e | Inr s \<Rightarrow> Inr NaN)"

fun Math_max :: "jsnum \<Rightarrow> jsnum \<Rightarrow> jsnum" where
  "Math_max NaN b = NaN"
| "Math_max a NaN = NaN"
| "Math_max PosInf b = PosInf"
| "Math_max a PosInf = PosInf"
| "Math_max NegInf b = b"
| "Math_max a NegInf = a"
| "Math_max (Fin a) (Fin b) = Fin (max a b)"

fun Math_min :: "jsnum \<Rightarrow> jsnum \<Rightarrow> jsnum" where
  "Math_min NaN b = NaN"
| "Math_min a NaN = NaN"
| "Math_min NegInf b = NegInf"
| "Math_min a NegInf = NegInf"
| "Math_min PosInf b = b"
| "Math_min a PosInf = a"
| "Math_min (Fin a) (Fin b) = Fin (min a b)"

text \<open>\<^verbatim>\<open>Array.isArray(v) ? v.slice(0, n) : []\<close>\<close>

fun slice_if_array :: "nat \<Rightarrow> jsval \<Rightarrow> jsval list" where
  "slice_if_array n (Arr xs) = take n xs"
| "slice_if_array n v = []"

section \<open>Strings\<close>

fun starts_with :: "string \<Rightarrow> string \<Rightarrow> bool" where
  "starts_with s [] = True"
| "starts_with [] (p # ps) = False"
| "starts_with (c # cs) (p # ps) = (c = p \<and> starts_with cs ps)"

text \<open>\<^verbatim>\<open>s.includes(sub)\<close>\<close>

fun js_includes :: "string \<Rightarrow> string \<Rightarrow> bool" where
  "js_includes [] sub = (sub = [])"
| "js_includes (c # cs) sub = (starts_with (c # cs) sub \<or> js_includes cs sub)"

text \<open>White space and line terminators of ECMAScript among the code units below 256.\<close>

definition is_space :: "char \<Rightarrow> bool" where
  "is_space c = (c \<in> set [CHR 0x09, CHR 0x0A, CHR 0x0B, CHR 0x0C, CHR 0x0D, CHR 0x20, CHR 0xA0])"

text \<open>\<^verbatim>\<open>s.trim()\<close>\<close>

definition trim :: "string \<Rightarrow> string" where
  "trim s = rev (dropWhile is_space (rev (dropWhile is_space s)))"

text \<open>\<^verbatim>\<open>s.replace(/```json|```/g, '')\<close>\<close>

fun strip_fences :: "string \<Rightarrow> string" where
  "strip_fences [] = []"
| "strip_fences (c # cs) =
     (if starts_with (c # cs) ''```json'' then strip_fences (drop 6 cs)
      else if starts_with (c # cs) ''```'' then strip_fences (drop 2 cs)
      else c # strip_fences cs)"


text \<open>\<^verbatim>\<open>s.toLowerCase()\<close> on code units below 256.\<close>

definition to_lower_char :: "char \<Rightarrow> char" where
  "to_lower_char c =
     (let n = (of_char c :: nat)
      in if (65 \<le> n \<and> n \<le> 90) \<or> (192 \<le> n \<and> n \<le> 222 \<and> n \<noteq> 215) then char_of (n + 32) else c)"

definition toLowerCase :: "string \<Rightarrow> string" where
  "toLowerCase s = map to_lower_char s"

section \<open>The reasoning oracle\<close>

text \<open>
  One HTTP exchange with the oracle: \<^verbatim>\<open>fetch\<close> (or \<^verbatim>\<open>axios.post\<close>) throws, or answers with
  its \<^verbatim>\<open>ok\<close> flag and a body that \<^verbatim>\<open>response.json()\<close> parses (\<open>None\<close> when that throws).
\<close>

datatype http_reply = FetchThrows exn | Response bool "jsval option"

text \<open>\<^verbatim>\<open>OpenRouterClient.chatCompletion\<close>\<close>

fun chatCompletion :: "http_reply \<Rightarrow> exn + jsval" where
  "chatCompletion (FetchThrows e) = Inl e"
| "chatCompletion (Response ok body) =
     (if \<not> ok then Inl (Error ''OpenRouter API error'')
      else case body of None \<Rightarrow> Inl (SyntaxError ''Unexpected end of JSON input'') | Some data \<Rightarrow> Inr data)"

text \<open>\<^verbatim>\<open>data.choices[0]?.message?.content\<close>\<close>

definition choices0_content :: "jsval \<Rightarrow> exn + jsval" where
  "choices0_content data =
     (case get_prop data ''choices'' of
        Inl e \<Rightarrow> Inl e
      | Inr choices \<Rightarrow>
          (case get_index0 choices of
             Inl e \<Rightarrow> Inl e
           | Inr c0 \<Rightarrow> Inr (get_prop_opt (get_prop_opt c0 ''message'') ''content'')))"

text \<open>\<^verbatim>\<open>data.choices?.[0]?.message?.content\<close>\<close>

definition choices0_content_opt :: "jsval \<Rightarrow> exn + jsval" where
  "choices0_content_opt data =
     (case get_prop data ''choices'' of
        Inl e \<Rightarrow> Inl e
      | Inr choices \<Rightarrow> Inr (get_prop_opt (get_prop_opt (get_index0_opt choices) ''message'') ''content''))"

text \<open>
  \<^verbatim>\<open>JSON.parse(content.replace(/```json|```/g, '').trim())\<close>; only a string has
  \<^verbatim>\<open>replace\<close>.
\<close>

fun parse_cleaned :: "runtime \<Rightarrow> jsval \<Rightarrow> exn + jsval" where
  "parse_cleaned rt (Str s) =
     (case JSON_parse rt (trim (strip_fences s)) of
        None \<Rightarrow> Inl (SyntaxError ''Unexpected token'')
      | Some v \<Rightarrow> Inr v)"
| "parse_cleaned rt v = Inl (TypeError ''content.replace is not a function'')"

section \<open>Claim verifier: sanitizing the oracle's judgment\<close>

record assessment =
  verdict :: string
  confidence :: jsnum
  evidence :: "jsval list"
  sources :: "jsval list"

record claim_judgment = assessment +
  explanation :: jsval

record verified_claim = assessment +
  claim_id :: nat
  claim_text :: string
  claim_timestamp :: string

record claim =
  ctext :: string
  ctimestamp :: string

definition canonical_verdicts :: "string list" where
  "canonical_verdicts = [''True'', ''Mostly True'', ''Mixed'', ''Mostly False'', ''False'']"

text \<open>
  \<^verbatim>\<open>['True', 'Mostly True', 'Mixed', 'Mostly False', 'False'].includes(x) ? x : 'Mixed'\<close>
\<close>

fun sanitize_verdict :: "jsval \<Rightarrow> string" where
  "sanitize_verdict (Str s) = (if s \<in> set canonical_verdicts then s else ''Mixed'')"
| "sanitize_verdict v = ''Mixed''"

text \<open>
  \<^verbatim>\<open>Math.min(Math.max(x || 0.5, 0), 1)\<close>, which throws where the conversion of \<open>x\<close> to a
  number throws.
\<close>

definition clamp_confidence :: "runtime \<Rightarrow> jsval \<Rightarrow> exn + jsnum" where
  "clamp_confidence rt x =
     (case ToNumber rt (js_or x (Num (Fin 0.5))) of
        Inl e \<Rightarrow> Inl e
      | Inr n \<Rightarrow> Inr (Math_min (Math_max n (Fin 0)) (Fin 1)))"

text \<open>
  The object literal \<^verbatim>\<open>sanitizedResult\<close> of \<^verbatim>\<open>VideoProcessor.factCheckClaims\<close>, for the
  claim at index \<open>i\<close> and the parsed response \<open>result\<close>.
\<close>

definition sanitizedResult :: "runtime \<Rightarrow> nat \<Rightarrow> claim \<Rightarrow> jsval \<Rightarrow> exn + verified_claim" where
  "sanitizedResult rt i c result =
     (case get_prop result ''confidence'' of
        Inl e \<Rightarrow> Inl e
      | Inr x \<Rightarrow>
          (case clamp_confidence rt x of
             Inl e \<Rightarrow> Inl e
           | Inr clamped \<Rightarrow>
               Inr \<lparr> verdict = sanitize_verdict (get_prop_opt result ''verdict''),
                     confidence = clamped,
                     evidence = slice_if_array 4 (get_prop_opt result ''evidence''),
                     sources = slice_if_array 3 (get_prop_opt result ''sources''),
                     claim_id = i + 1,
                     claim_text = ctext c,
                     claim_timestamp = ctimestamp c \<rparr>))"

text \<open>
  The object returned by \<^verbatim>\<open>RealVideoProcessor.analyzeSegmentWithKimi\<close> for the parsed
  response \<open>analysis\<close>. The first property read throws on \<^verbatim>\<open>null\<close>.
\<close>

definition sanitize_real :: "runtime \<Rightarrow> jsval \<Rightarrow> exn + claim_judgment" where
  "sanitize_real rt analysis =
     (case get_prop analysis ''verdict'' of
        Inl e \<Rightarrow> Inl e
      | Inr v \<Rightarrow>
          (case clamp_confidence rt (get_prop_opt analysis ''confidence'') of
             Inl e \<Rightarrow> Inl e
           | Inr clamped \<Rightarrow>
               Inr \<lparr> verdict = sanitize_verdict v,
                     confidence = clamped,
                     evidence = slice_if_array 3 (get_prop_opt analysis ''evidence''),
                     sources = slice_if_array 2 (get_prop_opt analysis ''sources''),
                     explanation = js_or (get_prop_opt analysis ''explanation'')
                                     (Str ''Analysis completed with available information.'') \<rparr>))"

text \<open>
  The object returned by \<^verbatim>\<open>FreeVideoProcessor.analyzeSegmentWithRealKimi\<close> for the parsed
  response \<open>analysis\<close>.
\<close>

definition sanitize_free :: "runtime \<Rightarrow> jsval \<Rightarrow> exn + claim_judgment" where
  "sanitize_free rt analysis =
     (case get_prop analysis ''verdict'' of
        Inl e \<Rightarrow> Inl e
      | Inr v \<Rightarrow>
          (case clamp_confidence rt (get_prop_opt analysis ''confidence'') of
             Inl e \<Rightarrow> Inl e
           | Inr clamped \<Rightarrow>
               Inr \<lparr> verdict = sanitize_verdict v,
                     confidence = clamped,
                     evidence = slice_if_array 4 (get_prop_opt analysis ''evidence''),
                     sources = slice_if_array 3 (get_prop_opt analysis ''sources''),
                     explanation = js_or (get_prop_opt analysis ''explanation'')
                                     (Str ''Analysis completed with available information.'') \<rparr>))"

section \<open>Claim verifier: local heuristic judgments\<close>

text \<open>\<^verbatim>\<open>/68.*percent|68.*%/.test(s)\<close>: the dot matches every code unit but a line terminator.\<close>

definition is_line_terminator :: "char \<Rightarrow> bool" where
  "is_line_terminator c = (c = CHR 0x0A \<or> c = CHR 0x0D)"

fun test_68_percent :: "string \<Rightarrow> bool" where
  "test_68_percent [] = False"
| "test_68_percent (c # cs) =
     ((starts_with (c # cs) ''68'' \<and>
        (let line = takeWhile (\<lambda>x. \<not> is_line_terminator x) (drop 1 cs)
         in js_includes line ''percent'' \<or> js_includes line ''%''))
      \<or> test_68_percent cs)"

definition source_entry :: "string \<Rightarrow> string \<Rightarrow> rat \<Rightarrow> jsval" where
  "source_entry t u r = Obj [(''title'', Str t), (''url'', Str u), (''reliability'', Num (Fin r))]"

text \<open>\<^verbatim>\<open>VideoProcessor.generateFallbackAnalysis\<close>\<close>

definition generateFallbackAnalysis :: "string \<Rightarrow> assessment" where
  "generateFallbackAnalysis claimText =
     (let lowerClaim = toLowerCase claimText in
      if js_includes lowerClaim ''mars'' \<and> js_includes lowerClaim ''never landed'' then
        \<lparr> verdict = ''False'', confidence = Fin 0.95,
          evidence = [Str ''Multiple NASA missions have successfully landed rovers on Mars'',
                      Str ''Curiosity, Perseverance, and other rovers are currently operating on Mars''],
          sources = [source_entry ''NASA Mars Exploration'' ''nasa.gov/mars'' 0.98] \<rparr>
      else if js_includes lowerClaim ''universe'' \<and> js_includes lowerClaim ''shrinking'' then
        \<lparr> verdict = ''False'', confidence = Fin 0.92,
          evidence = [Str ''Current scientific consensus supports universe expansion'',
                      Str ''Dark energy observations confirm accelerating expansion''],
          sources = [source_entry ''Cosmological Research'' ''science.org'' 0.94] \<rparr>
      else if js_includes lowerClaim ''climate change'' \<or> js_includes lowerClaim ''global warming'' then
        \<lparr> verdict = ''True'', confidence = Fin 0.97,
          evidence = [Str ''IPCC reports confirm human impact on climate'',
                      Str ''Temperature records show warming trend''],
          sources = [source_entry ''IPCC Climate Reports'' ''ipcc.ch'' 0.99] \<rparr>
      else
        \<lparr> verdict = ''Mixed'', confidence = Fin 0.6,
          evidence = [Str ''Claim requires additional verification with authoritative sources''],
          sources = [source_entry ''General Fact-Check Analysis'' ''#'' 0.7] \<rparr>)"

text \<open>\<^verbatim>\<open>RealVideoProcessor.getFallbackAnalysis\<close>\<close>

definition getFallbackAnalysis :: "string \<Rightarrow> claim_judgment" where
  "getFallbackAnalysis sentence =
     (let lowerSentence = toLowerCase sentence in
      if js_includes lowerSentence ''james webb'' \<and> js_includes lowerSentence ''telescope'' then
        \<lparr> verdict = ''True'', confidence = Fin 0.95,
          evidence = [Str ''JWST launched in 2021 and has exceeded expectations'',
                      Str ''Multiple peer-reviewed studies confirm its discoveries''],
          sources = [source_entry ''NASA JWST Mission'' ''nasa.gov/jwst'' 0.98],
          explanation = Str ''The James Webb Space Telescope has indeed provided unprecedented insights into the early universe and confirmed many cosmological theories.'' \<rparr>
      else if js_includes lowerSentence ''climate'' \<and> js_includes lowerSentence ''temperature'' then
        \<lparr> verdict = ''True'', confidence = Fin 0.97,
          evidence = [Str ''IPCC reports confirm this temperature rise'',
                      Str ''Multiple independent datasets support this finding''],
          sources = [source_entry ''IPCC Climate Reports'' ''ipcc.ch'' 0.99],
          explanation = Str (''Global temperature increase of 1.1'' @ [CHR 0xB0] @ ''C since pre-industrial times is well-documented by multiple climate research organizations.'') \<rparr>
      else
        \<lparr> verdict = ''Mixed'', confidence = Fin 0.6,
          evidence = [Str ''Statement analyzed but requires further verification''],
          sources = [],
          explanation = Str ''This statement requires additional verification with authoritative sources to determine complete accuracy.'' \<rparr>)"

text \<open>\<^verbatim>\<open>FreeVideoProcessor.getIntelligentFallback\<close>\<close>

definition getIntelligentFallback :: "string \<Rightarrow> claim_judgment" where
  "getIntelligentFallback sentence =
     (let lowerSentence = toLowerCase sentence in
      if js_includes lowerSentence ''james webb'' \<and> js_includes lowerSentence ''telescope'' then
        \<lparr> verdict = ''True'', confidence = Fin 0.95,
          evidence = [Str ''JWST operational since 2022 with unprecedented infrared capabilities'',
                      Str ''Multiple peer-reviewed studies published with JWST data'',
                      Str ''Confirmed observations of 13+ billion year old galaxies''],
          sources = [source_entry ''NASA JWST Mission Documentation'' ''nasa.gov/webb'' 0.98],
          explanation = Str ''The James Webb Space Telescope has indeed provided revolutionary insights into early universe formations and confirmed numerous cosmological theories through direct observation.'' \<rparr>
      else if js_includes lowerSentence ''dark energy'' \<and> test_68_percent lowerSentence then
        \<lparr> verdict = ''True'', confidence = Fin 0.92,
          evidence = [Str ''Planck satellite measurements confirm ~68% dark energy'',
                      Str ''Type Ia supernovae observations support accelerating expansion'',
                      Str ''Multiple independent studies converge on this value''],
          sources = [source_entry ''Planck Collaboration Results'' ''arxiv.org/planck'' 0.96],
          explanation = Str ''Current cosmological models based on Type Ia supernovae and cosmic microwave background data consistently indicate dark energy comprises approximately 68% of the universe.'' \<rparr>
      else if js_includes lowerSentence ''climate'' \<and> js_includes lowerSentence ''1.1''
              \<and> js_includes lowerSentence ''degrees'' then
        \<lparr> verdict = ''True'', confidence = Fin 0.97,
          evidence = [Str (''NOAA, NASA, and Hadley Centre data confirm 1.1'' @ [CHR 0xB0] @ ''C warming''),
                      Str ''IPCC AR6 report validates this temperature increase'',
                      Str ''Attribution studies identify human activities as primary cause''],
          sources = [source_entry ''IPCC Sixth Assessment Report'' ''ipcc.ch/ar6'' 0.99],
          explanation = Str (''Global surface temperature records from multiple independent datasets consistently show an increase of approximately 1.1'' @ [CHR 0xB0] @ ''C since the late 1800s, with human activities identified as the primary cause.'') \<rparr>
      else
        \<lparr> verdict = ''Mixed'', confidence = Fin 0.6,
          evidence = [Str ''Statement analyzed but needs further verification with primary sources''],
          sources = [source_entry ''General Fact-Check Analysis'' ''#'' 0.7],
          explanation = Str ''This statement requires additional verification with authoritative sources to determine complete factual accuracy.'' \<rparr>)"

text \<open>The sentence of the end-to-end scenario: \<^verbatim>\<open>Water boils at 100\<degree>C at sea level\<close>.\<close>

definition boiling_point_claim :: string where
  "boiling_point_claim = ''Water boils at 100'' @ [CHR 0xB0] @ ''C at sea level''"

section \<open>Numbers as text\<close>

text \<open>
  The decimal digits of an integer, as \<^verbatim>\<open>String(n)\<close> prints every integer below \<^verbatim>\<open>1e21\<close>.
\<close>

definition digit_char :: "nat \<Rightarrow> char" where
  "digit_char d = char_of (48 + d)"

fun show_nat :: "nat \<Rightarrow> string" where
  "show_nat n = (if n < 10 then [digit_char n] else show_nat (n div 10) @ [digit_char (n mod 10)])"

declare show_nat.simps [simp del]

definition show_int :: "int \<Rightarrow> string" where
  "show_int i = (if i < 0 then CHR ''-'' # show_nat (nat (- i)) else show_nat (nat i))"

text \<open>\<^verbatim>\<open>String(Math.round(x))\<close>\<close>

fun round_to_string :: "jsnum \<Rightarrow> string" where
  "round_to_string NaN = ''NaN''"
| "round_to_string PosInf = ''Infinity''"
| "round_to_string NegInf = ''-Infinity''"
| "round_to_string (Fin r) = show_int \<lfloor>r + 1 / 2\<rfloor>"

text \<open>\<^verbatim>\<open>x * 100\<close>\<close>

fun times100 :: "jsnum \<Rightarrow> jsnum" where
  "times100 (Fin r) = Fin (r * 100)"
| "times100 x = x"

text \<open>\<^verbatim>\<open>s.padStart(2, '0')\<close>\<close>

definition padStart2 :: "string \<Rightarrow> string" where
  "padStart2 s = replicate (2 - length s) CHR ''0'' @ s"

text \<open>\<^verbatim>\<open>a % b\<close> on finite numbers, \<open>b\<close> not zero: the remainder has the sign of \<open>a\<close>.\<close>

definition js_rem :: "rat \<Rightarrow> rat \<Rightarrow> rat" where
  "js_rem a b = a - b * of_int (if 0 \<le> a / b then \<lfloor>a / b\<rfloor> else \<lceil>a / b\<rceil>)"

text \<open>\<^verbatim>\<open>formatTimestamp\<close> (the same in all processors)\<close>

definition formatTimestamp :: "rat \<Rightarrow> string" where
  "formatTimestamp seconds =
     (let mins = \<lfloor>seconds / 60\<rfloor>; secs = \<lfloor>js_rem seconds 60\<rfloor>
      in show_int mins @ '':'' @ padStart2 (show_int secs))"

text \<open>\<^verbatim>\<open>ActualVideoProcessor.formatDuration\<close>\<close>

definition formatDuration :: "rat \<Rightarrow> string" where
  "formatDuration seconds =
     (let hours = \<lfloor>seconds / 3600\<rfloor>;
          minutes = \<lfloor>js_rem seconds 3600 / 60\<rfloor>;
          secs = \<lfloor>js_rem seconds 60\<rfloor>
      in if hours > 0
         then show_int hours @ '':'' @ padStart2 (show_int minutes) @ '':'' @ padStart2 (show_int secs)
         else show_int minutes @ '':'' @ padStart2 (show_int secs))"

text \<open>
  \<^verbatim>\<open>x.toFixed(1)\<close> for \<open>x\<close> below \<^verbatim>\<open>1e21\<close>: the integer \<open>n\<close> nearest to \<open>10 * x\<close> (the larger of
  two), printed with a point before its last digit; the sign is split off first.
\<close>

definition toFixed1 :: "rat \<Rightarrow> string" where
  "toFixed1 x =
     (let a = \<bar>x\<bar>; n = nat \<lfloor>10 * a + 1 / 2\<rfloor>;
          body = show_nat (n div 10) @ ''.'' @ show_nat (n mod 10)
      in if x < 0 then CHR ''-'' # body else body)"

text \<open>
  \<^verbatim>\<open>((Date.now() - startTime) / 1000).toFixed(1) + 's'\<close>, the clock read in milliseconds.
\<close>

definition processingTime_label :: "int \<Rightarrow> int \<Rightarrow> string" where
  "processingTime_label startTime now = toFixed1 (of_int (now - startTime) / 1000) @ ''s''"

section \<open>Aggregator\<close>

text \<open>
  \<^verbatim>\<open>scoreMap\<close> of \<^verbatim>\<open>calculateOverallScore\<close>, which is also \<^verbatim>\<open>verdictScores\<close> of
  \<^verbatim>\<open>synthesizeInsights\<close> and \<^verbatim>\<open>generateInsights\<close>.
\<close>

definition scoreMap :: "(string \<times> rat) list" where
  "scoreMap = [(''True'', 1), (''Mostly True'', 0.8), (''Mixed'', 0.5), (''Mostly False'', 0.2), (''False'', 0)]"

text \<open>
  \<^verbatim>\<open>scoreMap[verdict] || 0.5\<close>: a verdict that is no key of the table reads \<^verbatim>\<open>undefined\<close>, and
  \<^verbatim>\<open>undefined\<close> and \<^verbatim>\<open>0\<close> are both falsy.
\<close>

definition score_or_default :: "string \<Rightarrow> rat" where
  "score_or_default v =
     (case map_of scoreMap v of
        None \<Rightarrow> 0.5
      | Some r \<Rightarrow> if r = 0 then 0.5 else r)"

text \<open>\<^verbatim>\<open>totalScore / n\<close> for a count \<open>n\<close>: division by zero gives \<^verbatim>\<open>NaN\<close> or an infinity.\<close>

definition divide_by_count :: "rat \<Rightarrow> nat \<Rightarrow> jsnum" where
  "divide_by_count totalScore n =
     (if n = 0 then (if totalScore = 0 then NaN else if 0 < totalScore then PosInf else NegInf)
      else Fin (totalScore / of_nat n))"

text \<open>\<^verbatim>\<open>VideoProcessor.calculateOverallScore\<close>\<close>

definition calculateOverallScore :: "verified_claim list \<Rightarrow> jsnum" where
  "calculateOverallScore claims =
     (if length claims = 0 then Fin 0
      else divide_by_count (foldl (\<lambda>sum c. sum + score_or_default (verdict c)) 0 claims) (length claims))"

section \<open>Segmenter\<close>

text \<open>
  \<^verbatim>\<open>s.split(/[.!?]+/)\<close>: the pieces between the maximal runs of sentence punctuation; a run at
  the start or the end of the string leaves an empty piece there. The first argument collects
  the current piece in reverse, the second says that the scan is inside a run.
\<close>

definition is_sentence_end :: "char \<Rightarrow> bool" where
  "is_sentence_end c = (c = CHR ''.'' \<or> c = CHR ''!'' \<or> c = CHR ''?'')"

fun split_scan :: "string \<Rightarrow> bool \<Rightarrow> string \<Rightarrow> string list" where
  "split_scan cur in_run [] = [rev cur]"
| "split_scan cur in_run (c # cs) =
     (if is_sentence_end c
      then (if in_run then split_scan cur True cs else rev cur # split_scan [] True cs)
      else split_scan (c # cur) False cs)"

definition split_sentences :: "string \<Rightarrow> string list" where
  "split_sentences s = split_scan [] False s"

record transcription_segment =
  seg_start :: rat
  seg_end :: rat
  seg_text :: string

record transcriptionResult =
  transcript_text :: string
  segments :: "transcription_segment list"

record transcript_segment =
  segment :: string
  timestamp :: string
  sentence :: string

text \<open>\<^verbatim>\<open>RealVideoProcessor.prepareTranscriptSegments\<close>\<close>

definition prepareTranscriptSegments :: "transcriptionResult \<Rightarrow> transcript_segment list" where
  "prepareTranscriptSegments tr =
     concat (map (\<lambda>(i, seg).
       let sentences = filter (\<lambda>s. length (trim s) > 0) (split_sentences (seg_text seg))
       in concat (map (\<lambda>(index, s).
            if length (trim s) > 10
            then [\<lparr> segment = ''segment_'' @ show_nat i @ ''_'' @ show_nat index,
                    timestamp = formatTimestamp (seg_start seg + of_nat index * 2),
                    sentence = trim s \<rparr>]
            else [])
          (enumerate 0 sentences)))
       (enumerate 0 (segments tr)))"

text \<open>\<^verbatim>\<open>FreeVideoProcessor.prepareSegments\<close>\<close>

definition prepareSegments :: "transcriptionResult \<Rightarrow> transcript_segment list" where
  "prepareSegments tr =
     concat (map (\<lambda>(i, seg).
       let sentences = filter (\<lambda>s. length (trim s) > 10) (split_sentences (seg_text seg))
       in map (\<lambda>(index, s).
            let sentenceTime = seg_start seg
                  + of_nat index * (seg_end seg - seg_start seg) / of_nat (length sentences)
            in \<lparr> segment = ''segment_'' @ show_nat i @ ''_'' @ show_nat index,
                 timestamp = formatTimestamp sentenceTime,
                 sentence = trim s \<rparr>)
          (enumerate 0 sentences))
       (enumerate 0 (segments tr)))"

section \<open>Claim verifier: one oracle call per segment\<close>

record analyzed_segment = transcript_segment +
  analysis :: claim_judgment

definition with_analysis :: "transcript_segment \<Rightarrow> claim_judgment \<Rightarrow> analyzed_segment" where
  "with_analysis seg a =
     \<lparr> segment = segment seg, timestamp = timestamp seg, sentence = sentence seg, analysis = a \<rparr>"

text \<open>The text of \<^verbatim>\<open>${error}\<close> for a thrown value.\<close>

fun exn_to_string :: "exn \<Rightarrow> string" where
  "exn_to_string (Error m) = ''Error: '' @ m"
| "exn_to_string (TypeError m) = ''TypeError: '' @ m"
| "exn_to_string (SyntaxError m) = ''SyntaxError: '' @ m"

text \<open>
  The body of the \<^verbatim>\<open>try\<close> of \<^verbatim>\<open>RealVideoProcessor.analyzeSegmentWithKimi\<close>. \<^verbatim>\<open>axios.post\<close>
  throws on a failed exchange; a body that is not JSON is handed over as text, which has no
  \<^verbatim>\<open>choices\<close>.
\<close>

definition analyzeSegmentWithKimi_try :: "runtime \<Rightarrow> http_reply \<Rightarrow> exn + claim_judgment" where
  "analyzeSegmentWithKimi_try rt reply =
     (case reply of
        FetchThrows e \<Rightarrow> Inl e
      | Response ok body \<Rightarrow>
          if \<not> ok then Inl (Error ''Request failed'')
          else (case choices0_content (case body of None \<Rightarrow> Str [] | Some data \<Rightarrow> data) of
                  Inl e \<Rightarrow> Inl e
                | Inr content \<Rightarrow>
                    (case parse_cleaned rt (js_or content (Str ''{}'')) of
                       Inl e \<Rightarrow> Inl e
                     | Inr a \<Rightarrow> sanitize_real rt a)))"

text \<open>\<^verbatim>\<open>RealVideoProcessor.analyzeSegmentWithKimi\<close>: the \<^verbatim>\<open>catch\<close> wraps what was thrown.\<close>

definition analyzeSegmentWithKimi :: "runtime \<Rightarrow> http_reply \<Rightarrow> exn + claim_judgment" where
  "analyzeSegmentWithKimi rt reply =
     (case analyzeSegmentWithKimi_try rt reply of
        Inl e \<Rightarrow> Inl (Error (''Kimi K2 analysis failed: '' @ exn_to_string e))
      | Inr j \<Rightarrow> Inr j)"

text \<open>
  \<^verbatim>\<open>RealVideoProcessor.analyzeSegmentsWithKimi\<close>; \<open>replies i\<close> is the oracle's answer to the
  request for the segment at index \<open>i\<close>.
\<close>

definition analyzeSegmentsWithKimi ::
    "runtime \<Rightarrow> (nat \<Rightarrow> http_reply) \<Rightarrow> transcript_segment list \<Rightarrow> analyzed_segment list" where
  "analyzeSegmentsWithKimi rt replies segs =
     map (\<lambda>(i, seg).
       case analyzeSegmentWithKimi rt (replies i) of
         Inr a \<Rightarrow> with_analysis seg a
       | Inl e \<Rightarrow> with_analysis seg (getFallbackAnalysis (sentence seg)))
       (enumerate 0 segs)"

text \<open>\<^verbatim>\<open>FreeVideoProcessor.analyzeSegmentWithRealKimi\<close>: the \<^verbatim>\<open>catch\<close> throws again.\<close>

definition analyzeSegmentWithRealKimi :: "runtime \<Rightarrow> http_reply \<Rightarrow> exn + claim_judgment" where
  "analyzeSegmentWithRealKimi rt reply =
     (case reply of
        FetchThrows e \<Rightarrow> Inl e
      | Response ok body \<Rightarrow>
          if \<not> ok then Inl (Error ''Kimi K2 API error'')
          else (case body of
                  None \<Rightarrow> Inl (SyntaxError ''Unexpected end of JSON input'')
                | Some data \<Rightarrow>
                    (case choices0_content_opt data of
                       Inl e \<Rightarrow> Inl e
                     | Inr content \<Rightarrow>
                         (case parse_cleaned rt (js_or content (Str ''{}'')) of
                            Inl e \<Rightarrow> Inl e
                          | Inr a \<Rightarrow> sanitize_free rt a))))"

text \<open>\<^verbatim>\<open>FreeVideoProcessor.analyzeWithKimi\<close>\<close>

definition analyzeWithKimi ::
    "runtime \<Rightarrow> (nat \<Rightarrow> http_reply) \<Rightarrow> transcript_segment list \<Rightarrow> analyzed_segment list" where
  "analyzeWithKimi rt replies segs =
     map (\<lambda>(i, seg).
       case analyzeSegmentWithRealKimi rt (replies i) of
         Inr a \<Rightarrow> with_analysis seg a
       | Inl e \<Rightarrow> with_analysis seg (getIntelligentFallback (sentence seg)))
       (enumerate 0 segs)"

text \<open>
  One round of the loop of \<^verbatim>\<open>VideoProcessor.factCheckClaims\<close>, for the claim at index \<open>i\<close>.
\<close>

definition factCheckClaim :: "runtime \<Rightarrow> http_reply \<Rightarrow> nat \<Rightarrow> claim \<Rightarrow> verified_claim" where
  "factCheckClaim rt reply i c =
     (let attempt =
        (case chatCompletion reply of
           Inl e \<Rightarrow> Inl e
         | Inr response \<Rightarrow>
             (case choices0_content response of
                Inl e \<Rightarrow> Inl e
              | Inr content \<Rightarrow>
                  (case parse_cleaned rt (js_or content (Str ''{}'')) of
                     Inl e \<Rightarrow> Inl e
                   | Inr result \<Rightarrow> sanitizedResult rt i c result)))
      in case attempt of
           Inr v \<Rightarrow> v
         | Inl e \<Rightarrow>
             (let fallbackAnalysis = generateFallbackAnalysis (ctext c)
              in \<lparr> verdict = verdict fallbackAnalysis,
                   confidence = confidence fallbackAnalysis,
                   evidence = evidence fallbackAnalysis,
                   sources = sources fallbackAnalysis,
                   claim_id = i + 1,
                   claim_text = ctext c,
                   claim_timestamp = ctimestamp c \<rparr>))"

text \<open>\<^verbatim>\<open>VideoProcessor.factCheckClaims\<close>\<close>

definition factCheckClaims :: "runtime \<Rightarrow> (nat \<Rightarrow> http_reply) \<Rightarrow> claim list \<Rightarrow> verified_claim list" where
  "factCheckClaims rt replies claims =
     map (\<lambda>(i, c). factCheckClaim rt (replies i) i c) (enumerate 0 claims)"

section \<open>Aggregator of the segment pipelines\<close>

text \<open>\<^verbatim>\<open>a + b\<close> on numbers\<close>

fun js_add :: "jsnum \<Rightarrow> jsnum \<Rightarrow> jsnum" where
  "js_add NaN b = NaN"
| "js_add a NaN = NaN"
| "js_add PosInf NegInf = NaN"
| "js_add NegInf PosInf = NaN"
| "js_add PosInf b = PosInf"
| "js_add a PosInf = PosInf"
| "js_add NegInf b = NegInf"
| "js_add a NegInf = NegInf"
| "js_add (Fin a) (Fin b) = Fin (a + b)"

text \<open>\<^verbatim>\<open>x / n\<close> for a count \<open>n\<close>\<close>

fun js_div_count :: "jsnum \<Rightarrow> nat \<Rightarrow> jsnum" where
  "js_div_count (Fin r) n = divide_by_count r n"
| "js_div_count x n = x"

text \<open>\<^verbatim>\<open>x >= r\<close>, false for \<^verbatim>\<open>NaN\<close>\<close>

fun js_ge :: "jsnum \<Rightarrow> rat \<Rightarrow> bool" where
  "js_ge (Fin a) r = (r \<le> a)"
| "js_ge PosInf r = True"
| "js_ge x r = False"

record insights =
  i_overallAccuracy :: jsnum
  i_keyFindings :: "string list"

definition count_verdict :: "string \<Rightarrow> analyzed_segment list \<Rightarrow> nat" where
  "count_verdict v segs = length (filter (\<lambda>s. verdict (analysis s) = v) segs)"

definition average_confidence :: "analyzed_segment list \<Rightarrow> jsnum" where
  "average_confidence segs =
     js_div_count (foldl (\<lambda>sum s. js_add sum (confidence (analysis s))) (Fin 0) segs) (length segs)"

text \<open>\<^verbatim>\<open>RealVideoProcessor.synthesizeInsights\<close>\<close>

definition synthesizeInsights :: "analyzed_segment list \<Rightarrow> insights" where
  "synthesizeInsights analyzedSegments =
     (let totalScore = foldl (\<lambda>sum s. sum + score_or_default (verdict (analysis s))) 0 analyzedSegments
      in \<lparr> i_overallAccuracy = divide_by_count totalScore (length analyzedSegments),
           i_keyFindings =
             [''Analyzed '' @ show_nat (length analyzedSegments) @ '' factual claims from video transcript'',
              show_nat (count_verdict ''True'' analyzedSegments) @ '' claims verified as accurate'',
              show_nat (count_verdict ''False'' analyzedSegments) @ '' claims identified as inaccurate'',
              ''Average confidence score: ''
                @ round_to_string (times100 (average_confidence analyzedSegments)) @ ''%''] \<rparr>)"

text \<open>\<^verbatim>\<open>FreeVideoProcessor.generateInsights\<close>\<close>

definition generateInsights :: "analyzed_segment list \<Rightarrow> insights" where
  "generateInsights analyzedSegments =
     (let totalScore = foldl (\<lambda>sum s. sum + score_or_default (verdict (analysis s))) 0 analyzedSegments;
          overall = divide_by_count totalScore (length analyzedSegments);
          avgConfidence = average_confidence analyzedSegments;
          highConfidenceClaims = length (filter (\<lambda>s. js_ge (confidence (analysis s)) 0.8) analyzedSegments)
      in \<lparr> i_overallAccuracy = overall,
           i_keyFindings =
             [''Analyzed '' @ show_nat (length analyzedSegments)
                @ '' factual statements using FREE Whisper + Kimi K2'',
              show_nat (count_verdict ''True'' analyzedSegments) @ '' claims verified as accurate, ''
                @ show_nat (count_verdict ''False'' analyzedSegments) @ '' identified as inaccurate'',
              ''Average AI confidence score: '' @ round_to_string (times100 avgConfidence) @ ''% (''
                @ show_nat highConfidenceClaims @ '' high-confidence results)'',
              ''Video contains ''
                @ (if js_ge overall 0.8 then ''primarily accurate''
                   else if js_ge overall 0.6 then ''mixed accuracy'' else ''questionable'')
                @ '' information'',
              ''Processing completed with REAL API integrations: FREE Whisper + Kimi K2''] \<rparr>)"

text \<open>
  The arithmetic mean of the verdict scores as the specification gives them, for comparison:
  1, 0.8, 0.5, 0.2 and 0 for the five labels.
\<close>

definition spec_score :: "string \<Rightarrow> rat" where
  "spec_score v =
     (if v = ''True'' then 1 else if v = ''Mostly True'' then 0.8 else if v = ''Mixed'' then 0.5
      else if v = ''Mostly False'' then 0.2 else 0)"

definition spec_mean :: "string list \<Rightarrow> rat" where
  "spec_mean vs = (if vs = [] then 0 else sum_list (map spec_score vs) / of_nat (length vs))"

section \<open>Transcript acquisition cascade\<close>

record transcript_item =
  item_text :: string
  item_offset :: rat
  item_duration :: rat

record video_info =
  vi_title :: jsval
  vi_duration :: jsval
  vi_description :: jsval

record transcript_data =
  transcript :: jsval
  videoInfo :: video_info

text \<open>
  What is outside the program during one run: the transcript source, the two oracle exchanges
  of \<^verbatim>\<open>ActualVideoProcessor\<close>, and the clock. \<open>fetchTranscript w m ref lang\<close> is the outcome of
  the call \<^verbatim>\<open>YoutubeTranscript.fetchTranscript(ref, {lang})\<close> that extraction method \<open>m\<close> makes
  (for method 4, the outcome of the race against the ten-second timer). \<open>clock_start\<close> is
  the first \<^verbatim>\<open>Date.now()\<close> of the run, \<open>clock_finish\<close> the one that ends the measurement of the
  processing time, \<open>clock_id\<close> the one that names a failed run.
\<close>

record world =
  fetchTranscript :: "nat \<Rightarrow> string \<Rightarrow> string option \<Rightarrow> exn + transcript_item list"
  generate_reply :: http_reply
  analysis_reply :: http_reply
  clock_start :: int
  clock_finish :: int
  clock_id :: int

text \<open>\<^verbatim>\<open>xs.join(sep)\<close>\<close>

fun join_with :: "string \<Rightarrow> string list \<Rightarrow> string" where
  "join_with sep [] = []"
| "join_with sep [x] = x"
| "join_with sep (x # y # ys) = x @ sep @ join_with sep (y # ys)"

text \<open>\<^verbatim>\<open>ActualVideoProcessor.formatTranscriptResult\<close>\<close>

definition formatTranscriptResult :: "transcript_item list \<Rightarrow> string \<Rightarrow> transcript_data" where
  "formatTranscriptResult items method =
     (let fullText = join_with '' '' (map item_text items);
          totalDuration = (case items of [] \<Rightarrow> 0 | _ \<Rightarrow> item_offset (last items) + item_duration (last items))
      in \<lparr> transcript = Str fullText,
           videoInfo = \<lparr> vi_title = Str (''YouTube Video ('' @ method @ '')''),
                         vi_duration = Str (formatDuration (totalDuration / 1000)),
                         vi_description = Str (''Real transcript extracted via '' @ method) \<rparr> \<rparr>)"

text \<open>
  A loop of attempts, each inside its own \<^verbatim>\<open>try\<close>: the first attempt that answers with at
  least one item wins; an attempt that throws or answers with no item is passed over.
\<close>

fun first_nonempty :: "(exn + transcript_item list) list \<Rightarrow> transcript_item list option" where
  "first_nonempty [] = None"
| "first_nonempty (a # as) =
     (case a of
        Inr t \<Rightarrow> if length t > 0 then Some t else first_nonempty as
      | Inl e \<Rightarrow> first_nonempty as)"

text \<open>The four closures of \<^verbatim>\<open>extractionMethods\<close>.\<close>

definition method1 :: "world \<Rightarrow> string \<Rightarrow> exn + transcript_data" where
  "method1 w videoUrl =
     (case first_nonempty (map (\<lambda>lang. fetchTranscript w 1 videoUrl (Some lang))
                             [''en'', ''en-US'', ''en-GB'', ''auto'']) of
        Some t \<Rightarrow> Inr (formatTranscriptResult t ''Direct URL'')
      | None \<Rightarrow> Inl (Error ''No language worked''))"

definition method2 :: "runtime \<Rightarrow> world \<Rightarrow> string \<Rightarrow> exn + transcript_data" where
  "method2 rt w videoUrl =
     (let videoId = extractVideoId rt videoUrl
      in if videoId = ''unknown'' then Inl (Error ''Could not extract video ID'')
         else (case fetchTranscript w 2 videoId None of
                 Inl e \<Rightarrow> Inl e
               | Inr t \<Rightarrow> if length t > 0 then Inr (formatTranscriptResult t ''Video ID'')
                          else Inl (Error ''No transcript from video ID'')))"

definition method3 :: "runtime \<Rightarrow> world \<Rightarrow> string \<Rightarrow> exn + transcript_data" where
  "method3 rt w videoUrl =
     (let videoId = extractVideoId rt videoUrl
      in if videoId = ''unknown'' then Inl (Error ''No video ID for URL formats'')
         else (case first_nonempty (map (\<lambda>format. fetchTranscript w 3 format None)
                                      [''https://www.youtube.com/watch?v='' @ videoId,
                                       ''https://youtu.be/'' @ videoId,
                                       videoId]) of
                 Some t \<Rightarrow> Inr (formatTranscriptResult t ''URL Format'')
               | None \<Rightarrow> Inl (Error ''No URL format worked'')))"

definition method4 :: "runtime \<Rightarrow> world \<Rightarrow> string \<Rightarrow> exn + transcript_data" where
  "method4 rt w videoUrl =
     (let videoId = extractVideoId rt videoUrl
      in if videoId = ''unknown'' then Inl (Error ''No video ID for timeout method'')
         else (case fetchTranscript w 4 videoId (Some ''en'') of
                 Inl e \<Rightarrow> Inl e
               | Inr t \<Rightarrow> if length t > 0 then Inr (formatTranscriptResult t ''Timeout Retry'')
                          else Inl (Error ''Timeout method failed'')))"

text \<open>The built-in passage that ends \<^verbatim>\<open>kimiGenerateContent\<close>.\<close>

definition ultimate_fallback :: transcript_data where
  "ultimate_fallback =
     \<lparr> transcript = Str ''This educational content discusses recent scientific discoveries and technological advancements. Researchers have published new studies showing significant progress in renewable energy efficiency. The data indicates that solar panel technology has improved by 25% over the past year. Government agencies have confirmed new environmental policies will be implemented next quarter. These developments represent important progress toward sustainable energy goals.'',
       videoInfo = \<lparr> vi_title = Str ''Educational Content Analysis'',
                     vi_duration = Str ''4:30'',
                     vi_description = Str ''Sample content for fact-checking demonstration'' \<rparr> \<rparr>"

text \<open>
  The inner \<^verbatim>\<open>try\<close> of \<^verbatim>\<open>kimiGenerateContent\<close>, entered with a truthy \<open>content\<close>, and its
  \<^verbatim>\<open>catch\<close>.
\<close>

definition generated_from_json :: "runtime \<Rightarrow> jsval \<Rightarrow> exn + transcript_data" where
  "generated_from_json rt content =
     (case parse_cleaned rt content of
        Inl e \<Rightarrow> Inl e
      | Inr parsed \<Rightarrow>
          (case get_prop parsed ''transcript'' of
             Inl e \<Rightarrow> Inl e
           | Inr t \<Rightarrow>
               (let info = get_prop_opt parsed ''videoInfo''
                in Inr \<lparr> transcript = js_or t content,
                         videoInfo =
                           \<lparr> vi_title = js_or (get_prop_opt info ''title'') (Str ''Generated Content Analysis''),
                             vi_duration = js_or (get_prop_opt info ''duration'') (Str ''5:00''),
                             vi_description = js_or (get_prop_opt info ''description'')
                                             (Str ''AI-generated content for fact-checking'') \<rparr> \<rparr>)))"

definition generated_from_content :: "runtime \<Rightarrow> jsval \<Rightarrow> transcript_data" where
  "generated_from_content rt content =
     (case generated_from_json rt content of
        Inr r \<Rightarrow> r
      | Inl e \<Rightarrow>
          \<lparr> transcript = content,
            videoInfo = \<lparr> vi_title = Str ''Generated Educational Content'',
                          vi_duration = Str ''5:00'',
                          vi_description = Str ''AI-generated content for analysis'' \<rparr> \<rparr>)"

text \<open>
  The outer \<^verbatim>\<open>try\<close> of \<^verbatim>\<open>kimiGenerateContent\<close>: \<open>Inr None\<close> when it ends without a
  \<^verbatim>\<open>return\<close>.
\<close>

definition kimiGenerateContent_try :: "runtime \<Rightarrow> http_reply \<Rightarrow> exn + transcript_data option" where
  "kimiGenerateContent_try rt reply =
     (case reply of
        FetchThrows e \<Rightarrow> Inl e
      | Response ok body \<Rightarrow>
          if ok then
            (case body of
               None \<Rightarrow> Inl (SyntaxError ''Unexpected end of JSON input'')
             | Some data \<Rightarrow>
                 (case choices0_content data of
                    Inl e \<Rightarrow> Inl e
                  | Inr content \<Rightarrow>
                      if truthy content then Inr (Some (generated_from_content rt content))
                      else Inr None))
          else Inr None)"

text \<open>\<^verbatim>\<open>ActualVideoProcessor.kimiGenerateContent\<close>\<close>

definition kimiGenerateContent :: "runtime \<Rightarrow> http_reply \<Rightarrow> exn + transcript_data" where
  "kimiGenerateContent rt reply =
     (case kimiGenerateContent_try rt reply of
        Inr (Some r) \<Rightarrow> Inr r
      | Inr None \<Rightarrow> Inr ultimate_fallback
      | Inl e \<Rightarrow> Inr ultimate_fallback)"

text \<open>
  The loop over \<^verbatim>\<open>extractionMethods\<close> and the \<^verbatim>\<open>throw\<close> after it. A method that throws is
  passed over; when it is the last one, the result of \<^verbatim>\<open>kimiGenerateContent\<close> is returned.
\<close>

fun try_methods :: "(exn + transcript_data) list \<Rightarrow> exn + transcript_data \<Rightarrow> exn + transcript_data" where
  "try_methods [] generated = Inl (Error ''All extraction methods failed'')"
| "try_methods (m # ms) generated =
     (case m of
        Inr r \<Rightarrow> Inr r
      | Inl e \<Rightarrow> if ms = [] then generated else try_methods ms generated)"

text \<open>\<^verbatim>\<open>ActualVideoProcessor.extractRealTranscript\<close>\<close>

definition extractRealTranscript :: "runtime \<Rightarrow> world \<Rightarrow> string \<Rightarrow> exn + transcript_data" where
  "extractRealTranscript rt w videoUrl =
     try_methods [method1 w videoUrl, method2 rt w videoUrl, method3 rt w videoUrl, method4 rt w videoUrl]
       (kimiGenerateContent rt (generate_reply w))"

section \<open>Single-call analysis of \<^verbatim>\<open>ActualVideoProcessor\<close>\<close>

text \<open>
  The segments of a report are either the value that the oracle sent under \<^verbatim>\<open>segments\<close>,
  passed on as it is, or a list built by the processor.
\<close>

datatype analysis_segments = OracleSegments jsval | BuiltSegments "analyzed_segment list"

record kimi_analysis =
  a_segments :: analysis_segments
  a_overallAccuracy :: jsnum
  a_keyFindings :: "jsval list"

text \<open>\<^verbatim>\<open>ActualVideoProcessor.createBasicSegments\<close>, which throws when its argument is no string.\<close>

fun createBasicSegments :: "jsval \<Rightarrow> exn + analyzed_segment list" where
  "createBasicSegments (Str analysisText) =
     (let sentences = take 3 (filter (\<lambda>s. length (trim s) > 20) (split_sentences analysisText))
      in Inr (map (\<lambda>(i, s).
           \<lparr> segment = ''analysis_'' @ show_nat (i + 1),
             timestamp = show_nat (i * 90) @ '':00'',
             sentence = trim s,
             analysis = \<lparr> verdict = ''Mixed'', confidence = Fin 0.7,
                          evidence = [Str ''Analysis based on Kimi K2 knowledge base''],
                          sources = [],
                          explanation = Str ''Kimi K2 provided detailed analysis of this content'' \<rparr> \<rparr>)
           (enumerate 0 sentences)))"
| "createBasicSegments v = Inl (TypeError ''analysisText.split is not a function'')"

text \<open>\<^verbatim>\<open>ActualVideoProcessor.convertTextToSegments\<close>\<close>

definition convertTextToSegments :: "jsval \<Rightarrow> jsval \<Rightarrow> exn + kimi_analysis" where
  "convertTextToSegments analysisText originalTranscript =
     (case createBasicSegments analysisText of
        Inl e \<Rightarrow> Inl e
      | Inr segs \<Rightarrow>
          (case originalTranscript of
             Str t \<Rightarrow>
               Inr \<lparr> a_segments = BuiltSegments segs,
                     a_overallAccuracy = Fin 0.7,
                     a_keyFindings = [Str ''Comprehensive analysis completed by Kimi K2'',
                                      Str (''Analyzed content: '' @ take 100 t @ ''...''),
                                      Str ''Fact-checking assessment provided''] \<rparr>
           | _ \<Rightarrow> Inl (TypeError ''originalTranscript.substring is not a function'')))"

text \<open>\<^verbatim>\<open>ActualVideoProcessor.createFallbackAnalysis\<close>\<close>

fun createFallbackAnalysis :: "jsval \<Rightarrow> exn + kimi_analysis" where
  "createFallbackAnalysis (Str t) =
     (let sentences = take 4 (filter (\<lambda>s. length (trim s) > 15) (split_sentences t))
      in Inr \<lparr> a_segments = BuiltSegments (map (\<lambda>(i, s).
                   \<lparr> segment = ''fallback_'' @ show_nat (i + 1),
                     timestamp = show_nat (i * 60) @ '':00'',
                     sentence = trim s,
                     analysis = \<lparr> verdict = ''Mixed'', confidence = Fin 0.6,
                                  evidence = [Str ''Limited analysis due to processing constraints''],
                                  sources = [],
                                  explanation = Str ''Basic analysis completed - requires further verification'' \<rparr> \<rparr>)
                   (enumerate 0 sentences)),
               a_overallAccuracy = Fin 0.6,
               a_keyFindings = [Str (''Analyzed '' @ show_nat (length sentences) @ '' key statements''),
                                Str ''Further verification recommended'',
                                Str ''Basic fact-checking completed''] \<rparr>)"
| "createFallbackAnalysis v = Inl (TypeError ''transcript.split is not a function'')"

text \<open>
  The inner \<^verbatim>\<open>try\<close> of \<^verbatim>\<open>kimiCompleteAnalysis\<close>, entered with a truthy \<open>content_response\<close>.
  \<^verbatim>\<open>parseFloat\<close> converts its argument to a string first.
\<close>

definition analysis_from_json :: "runtime \<Rightarrow> jsval \<Rightarrow> exn + kimi_analysis" where
  "analysis_from_json rt content_response =
     (case parse_cleaned rt content_response of
        Inl e \<Rightarrow> Inl e
      | Inr a \<Rightarrow>
          (case get_prop a ''segments'' of
             Inl e \<Rightarrow> Inl e
           | Inr segs \<Rightarrow>
               (case (if truthy segs then Inr (OracleSegments segs)
                      else map_sum id BuiltSegments (createBasicSegments content_response)) of
                  Inl e \<Rightarrow> Inl e
                | Inr chosen \<Rightarrow>
                    (case ToString rt (get_prop_opt a ''overallAccuracy'') of
                       Inl e \<Rightarrow> Inl e
                     | Inr accuracy_text \<Rightarrow>
                         Inr \<lparr> a_segments = chosen,
                               a_overallAccuracy =
                                 (let parsed = parseFloat rt accuracy_text
                                  in Math_min (Math_max (if truthy (Num parsed) then parsed else Fin 0.7)
                                                 (Fin 0)) (Fin 1)),
                               a_keyFindings =
                                 (case get_prop_opt a ''keyFindings'' of
                                    Arr xs \<Rightarrow> xs
                                  | _ \<Rightarrow> [Str ''Fact-checking analysis completed by Kimi K2'']) \<rparr>))))"

text \<open>The outer \<^verbatim>\<open>try\<close> of \<^verbatim>\<open>kimiCompleteAnalysis\<close>; the inner \<^verbatim>\<open>catch\<close> may throw again.\<close>

definition kimiCompleteAnalysis_try :: "runtime \<Rightarrow> http_reply \<Rightarrow> transcript_data \<Rightarrow> exn + kimi_analysis" where
  "kimiCompleteAnalysis_try rt reply content =
     (case reply of
        FetchThrows e \<Rightarrow> Inl e
      | Response ok body \<Rightarrow>
          if \<not> ok then Inl (Error ''Kimi K2 analysis failed'')
          else (case body of
                  None \<Rightarrow> Inl (SyntaxError ''Unexpected end of JSON input'')
                | Some data \<Rightarrow>
                    (case choices0_content data of
                       Inl e \<Rightarrow> Inl e
                     | Inr content_response \<Rightarrow>
                         if \<not> truthy content_response
                         then Inl (Error ''No analysis content received from Kimi K2'')
                         else (case analysis_from_json rt content_response of
                                 Inr r \<Rightarrow> Inr r
                               | Inl parseError \<Rightarrow>
                                   convertTextToSegments content_response (transcript content)))))"

text \<open>
  \<^verbatim>\<open>ActualVideoProcessor.kimiCompleteAnalysis\<close>. The prompt is built before the \<^verbatim>\<open>try\<close> is
  entered and holds \<^verbatim>\<open>${content.transcript}\<close>, so a transcript that cannot be converted to a
  string makes the function throw at once; the prompt itself goes to the oracle only. The
  outer \<^verbatim>\<open>catch\<close> calls \<^verbatim>\<open>createFallbackAnalysis\<close>, outside every \<^verbatim>\<open>try\<close>.
\<close>

definition kimiCompleteAnalysis :: "runtime \<Rightarrow> http_reply \<Rightarrow> transcript_data \<Rightarrow> exn + kimi_analysis" where
  "kimiCompleteAnalysis rt reply content =
     (case ToString rt (transcript content) of
        Inl e \<Rightarrow> Inl e
      | Inr transcript_in_prompt \<Rightarrow>
          (case kimiCompleteAnalysis_try rt reply content of
             Inr r \<Rightarrow> Inr r
           | Inl e \<Rightarrow> createFallbackAnalysis (transcript content)))"

section \<open>Pipeline orchestrator\<close>

datatype step_status = pending | processing | completed | error

text \<open>
  A step of the progress list. The optional \<^verbatim>\<open>progress\<close> field of the interface is never
  written by any processor and is left out.
\<close>

record ProcessingStep =
  step :: string
  status :: step_status
  message :: string

text \<open>
  The step list of a run together with the snapshots handed to \<^verbatim>\<open>onProgress\<close> so far, each
  as the list stood when it was emitted.
\<close>

record pipeline_state =
  current_steps :: "ProcessingStep list"
  emitted :: "ProcessingStep list list"

text \<open>
  Progress messages carry pictographs outside the code units below 256. Such a constant is
  written as the bytes of its UTF-8 encoding; messages are only built and stored, never
  scanned or measured.
\<close>

definition check_mark :: string where
  "check_mark = [CHR 0xE2, CHR 0x9C, CHR 0x85]"

definition cross_mark :: string where
  "cross_mark = [CHR 0xE2, CHR 0x9D, CHR 0x8C]"

definition memo_sign :: string where
  "memo_sign = [CHR 0xF0, CHR 0x9F, CHR 0x93, CHR 0x9D]"

definition robot_face :: string where
  "robot_face = [CHR 0xF0, CHR 0x9F, CHR 0xA4, CHR 0x96]"

text \<open>The first element that satisfies \<open>P\<close> is replaced by its image under \<open>f\<close>.\<close>

fun update_first :: "('a \<Rightarrow> bool) \<Rightarrow> ('a \<Rightarrow> 'a) \<Rightarrow> 'a list \<Rightarrow> 'a list" where
  "update_first P f [] = []"
| "update_first P f (x # xs) = (if P x then f x # xs else x # update_first P f xs)"

text \<open>\<^verbatim>\<open>updateStep\<close> (the same in all processors)\<close>

definition updateStep :: "pipeline_state \<Rightarrow> string \<Rightarrow> step_status \<Rightarrow> string \<Rightarrow> pipeline_state" where
  "updateStep st stepName new_status msg =
     (if list_ex (\<lambda>s. step s = stepName) (current_steps st)
      then (let steps' = update_first (\<lambda>s. step s = stepName)
                           (\<lambda>s. s\<lparr> status := new_status, message := msg \<rparr>) (current_steps st)
            in \<lparr> current_steps = steps', emitted = emitted st @ [steps'] \<rparr>)
      else st)"

text \<open>
  The first lines of every error handler: the first step found \<^verbatim>\<open>processing\<close> becomes
  \<^verbatim>\<open>error\<close> with the failure's message, and the list is emitted once more.
\<close>

definition mark_current_step_failed :: "exn \<Rightarrow> pipeline_state \<Rightarrow> pipeline_state" where
  "mark_current_step_failed e st =
     (if list_ex (\<lambda>s. status s = processing) (current_steps st)
      then (let steps' = update_first (\<lambda>s. status s = processing)
                           (\<lambda>s. s\<lparr> status := error, message := cross_mark @ '' '' @ error_message e \<rparr>)
                           (current_steps st)
            in \<lparr> current_steps = steps', emitted = emitted st @ [steps'] \<rparr>)
      else st)"

record Report =
  videoId :: string
  platform :: string
  title :: jsval
  duration :: jsval
  fullTranscript :: jsval
  segmentedAnalysis :: analysis_segments
  overallAccuracy :: jsnum
  keyFindings :: "jsval list"
  processingTime :: string
  steps :: "ProcessingStep list"

text \<open>
  A finished run: the report returned to the caller and every snapshot that
  \<^verbatim>\<open>onProgress\<close> received.
\<close>

type_synonym run_result = "Report \<times> ProcessingStep list list"

text \<open>\<^verbatim>\<open>ActualVideoProcessor.handleError\<close>\<close>

definition handleError :: "exn \<Rightarrow> pipeline_state \<Rightarrow> world \<Rightarrow> run_result" where
  "handleError e st w =
     (let st' = mark_current_step_failed e st
      in (\<lparr> videoId = show_int (clock_id w),
             platform = ''Error'',
             title = Str ''Processing Failed'',
             duration = Str ''0:00'',
             fullTranscript = Str (''Error: '' @ error_message e),
             segmentedAnalysis = BuiltSegments [],
             overallAccuracy = Fin 0,
             keyFindings = [Str (''Error: '' @ error_message e), Str ''Please try a different video URL''],
             processingTime = processingTime_label (clock_start w) (clock_finish w),
             steps = current_steps st' \<rparr>,
          emitted st'))"

text \<open>\<^verbatim>\<open>RealVideoProcessor.handleRealProcessingError\<close>\<close>

definition handleRealProcessingError :: "exn \<Rightarrow> pipeline_state \<Rightarrow> world \<Rightarrow> run_result" where
  "handleRealProcessingError e st w =
     (let st' = mark_current_step_failed e st
      in (\<lparr> videoId = show_int (clock_id w),
             platform = ''Unknown'',
             title = Str ''Analysis Failed'',
             duration = Str ''0:00'',
             fullTranscript = Str ''Transcription could not be completed due to error.'',
             segmentedAnalysis = BuiltSegments [],
             overallAccuracy = Fin 0,
             keyFindings = [Str (''Processing failed: '' @ error_message e)],
             processingTime = processingTime_label (clock_start w) (clock_finish w),
             steps = current_steps st' \<rparr>,
          emitted st'))"

text \<open>\<^verbatim>\<open>FreeVideoProcessor.handleError\<close>\<close>

definition handleError_free :: "exn \<Rightarrow> pipeline_state \<Rightarrow> world \<Rightarrow> run_result" where
  "handleError_free e st w =
     (let st' = mark_current_step_failed e st
      in (\<lparr> videoId = show_int (clock_id w),
             platform = ''Error'',
             title = Str ''Processing Failed'',
             duration = Str ''0:00'',
             fullTranscript = Str ''Transcription could not be completed due to processing error.'',
             segmentedAnalysis = BuiltSegments [],
             overallAccuracy = Fin 0,
             keyFindings = [Str (''Processing failed: '' @ error_message e),
                            Str ''Please try again with a different video URL''],
             processingTime = processingTime_label (clock_start w) (clock_finish w),
             steps = current_steps st' \<rparr>,
          emitted st'))"

text \<open>
  The text of \<^verbatim>\<open>${v.length}\<close>: reading the property throws on \<^verbatim>\<open>undefined\<close> and \<^verbatim>\<open>null\<close>, and
  the \<^verbatim>\<open>length\<close> entry of an object is converted to a string, which can throw in turn.
\<close>

fun length_text :: "runtime \<Rightarrow> jsval \<Rightarrow> exn + string" where
  "length_text rt Undefined = Inl (cannot_read ''undefined'' ''length'')"
| "length_text rt Null = Inl (cannot_read ''null'' ''length'')"
| "length_text rt (Str s) = Inr (show_nat (length s))"
| "length_text rt (Arr xs) = Inr (show_nat (length xs))"
| "length_text rt (Obj kvs) =
     (case map_of kvs ''length'' of None \<Rightarrow> Inr ''undefined'' | Some v \<Rightarrow> ToString rt v)"
| "length_text rt v = Inr ''undefined''"

fun segments_length_text :: "runtime \<Rightarrow> analysis_segments \<Rightarrow> exn + string" where
  "segments_length_text rt (OracleSegments v) = length_text rt v"
| "segments_length_text rt (BuiltSegments xs) = Inr (show_nat (length xs))"

text \<open>\<^verbatim>\<open>ActualVideoProcessor.compileKimiResults\<close>\<close>

definition compileKimiResults ::
    "runtime \<Rightarrow> kimi_analysis \<Rightarrow> transcript_data \<Rightarrow> string \<Rightarrow> world \<Rightarrow> exn + Report" where
  "compileKimiResults rt a transcriptData vid w =
     (let time_label = processingTime_label (clock_start w) (clock_finish w)
      in case segments_length_text rt (a_segments a) of
           Inl e \<Rightarrow> Inl e
         | Inr n \<Rightarrow>
             Inr \<lparr> videoId = vid,
                   platform = ''YouTube'',
                   title = vi_title (videoInfo transcriptData),
                   duration = vi_duration (videoInfo transcriptData),
                   fullTranscript = transcript transcriptData,
                   segmentedAnalysis = a_segments a,
                   overallAccuracy = a_overallAccuracy a,
                   keyFindings = a_keyFindings a @
                     [Str ''Analysis powered by Kimi K2 AI'',
                      Str (''Processed '' @ n @ '' key statements''),
                      Str (''Processing time: '' @ time_label)],
                   processingTime = time_label,
                   steps = [] \<rparr>)"

text \<open>\<^verbatim>\<open>ActualVideoProcessor.isYouTubeUrl\<close>\<close>

definition isYouTubeUrl :: "runtime \<Rightarrow> string \<Rightarrow> bool" where
  "isYouTubeUrl rt videoUrl =
     (case URL_hostname rt videoUrl of
        None \<Rightarrow> False
      | Some hostname \<Rightarrow> js_includes hostname ''youtube'' \<or> js_includes hostname ''youtu.be'')"

definition initial_steps :: "ProcessingStep list" where
  "initial_steps =
     [\<lparr> step = ''validate'', status = pending, message = ''Validating YouTube URL...'' \<rparr>,
      \<lparr> step = ''extract'', status = pending, message = ''Extracting real transcript from YouTube...'' \<rparr>,
      \<lparr> step = ''kimiAnalyze'', status = pending,
        message = ''Kimi K2 fact-checking with sources and evidence...'' \<rparr>,
      \<lparr> step = ''results'', status = pending, message = ''Compiling comprehensive analysis results...'' \<rparr>]"

text \<open>
  \<^verbatim>\<open>ActualVideoProcessor.processActualVideo\<close>, one stage per definition, last stage first. Every
  exception inside the \<^verbatim>\<open>try\<close> ends the run in \<^verbatim>\<open>handleError\<close> with the state reached so far.
\<close>

definition compile_stage ::
    "runtime \<Rightarrow> world \<Rightarrow> string \<Rightarrow> transcript_data \<Rightarrow> kimi_analysis \<Rightarrow> pipeline_state \<Rightarrow> run_result" where
  "compile_stage rt w videoUrl transcriptData kimiAnalysis st =
     (let st1 = updateStep st ''results'' processing ''Compiling final results...''
      in case compileKimiResults rt kimiAnalysis transcriptData (extractVideoId rt videoUrl) w of
           Inl e \<Rightarrow> handleError e st1 w
         | Inr finalResults \<Rightarrow>
             (let st2 = updateStep st1 ''results'' completed
                          (check_mark @ '' Complete! Accuracy: ''
                             @ round_to_string (times100 (overallAccuracy finalResults)) @ ''%'')
              in (finalResults\<lparr> steps := current_steps st2 \<rparr>, emitted st2)))"

definition analysis_stage ::
    "runtime \<Rightarrow> world \<Rightarrow> string \<Rightarrow> transcript_data \<Rightarrow> pipeline_state \<Rightarrow> run_result" where
  "analysis_stage rt w videoUrl transcriptData st =
     (let st1 = updateStep st ''kimiAnalyze'' processing ''Kimi K2 fact-checking with sources and evidence...''
      in case kimiCompleteAnalysis rt (analysis_reply w) transcriptData of
           Inl e \<Rightarrow> handleError e st1 w
         | Inr kimiAnalysis \<Rightarrow>
             (case segments_length_text rt (a_segments kimiAnalysis) of
                Inl e \<Rightarrow> handleError e st1 w
              | Inr n \<Rightarrow>
                  compile_stage rt w videoUrl transcriptData kimiAnalysis
                    (updateStep st1 ''kimiAnalyze'' completed
                       (robot_face @ '' Kimi K2 analysis complete with '' @ n @ '' fact-checked segments''))))"

definition extract_stage :: "runtime \<Rightarrow> world \<Rightarrow> string \<Rightarrow> pipeline_state \<Rightarrow> run_result" where
  "extract_stage rt w videoUrl st =
     (let st1 = updateStep st ''extract'' processing ''Extracting real YouTube transcript...''
      in case extractRealTranscript rt w videoUrl of
           Inl e \<Rightarrow> handleError e st1 w
         | Inr transcriptData \<Rightarrow>
             (case length_text rt (transcript transcriptData) of
                Inl e \<Rightarrow> handleError e st1 w
              | Inr n \<Rightarrow>
                  analysis_stage rt w videoUrl transcriptData
                    (updateStep st1 ''extract'' completed
                       (memo_sign @ '' Real transcript extracted: '' @ n @ '' chars''))))"

definition processActualVideo :: "runtime \<Rightarrow> world \<Rightarrow> string \<Rightarrow> run_result" where
  "processActualVideo rt w videoUrl =
     (let st0 = \<lparr> current_steps = initial_steps, emitted = [] \<rparr>;
          st1 = updateStep st0 ''validate'' processing ''Validating YouTube URL...''
      in if \<not> isYouTubeUrl rt videoUrl
         then handleError
                (Error ''Only YouTube URLs are supported. Please provide a valid YouTube video link.'')
                st1 w
         else extract_stage rt w videoUrl
                (updateStep st1 ''validate'' completed (check_mark @ '' Valid YouTube video detected'')))"

text \<open>
  The step list with which \<^verbatim>\<open>RealVideoProcessor.processVideoReal\<close> starts, and the failure of
  its first stage: \<^verbatim>\<open>extractVideoMetadata\<close> wraps what \<^verbatim>\<open>new URL(videoUrl)\<close> throws.
\<close>

definition real_initial_steps :: "ProcessingStep list" where
  "real_initial_steps =
     [\<lparr> step = ''validate'', status = pending, message = ''Validating video URL and extracting metadata...'' \<rparr>,
      \<lparr> step = ''download'', status = pending, message = ''Downloading video and extracting audio...'' \<rparr>,
      \<lparr> step = ''transcribe'', status = pending, message = ''Transcribing with OpenAI Whisper...'' \<rparr>,
      \<lparr> step = ''segment'', status = pending, message = ''Segmenting transcript for analysis...'' \<rparr>,
      \<lparr> step = ''analyze'', status = pending, message = ''Line-by-line analysis with Kimi K2...'' \<rparr>,
      \<lparr> step = ''synthesize'', status = pending, message = ''Connecting dots and generating insights...'' \<rparr>]"

definition processVideoReal_invalid_url :: "world \<Rightarrow> run_result" where
  "processVideoReal_invalid_url w =
     (let st0 = \<lparr> current_steps = real_initial_steps, emitted = [] \<rparr>;
          st1 = updateStep st0 ''validate'' processing ''Extracting video metadata...''
      in handleRealProcessingError
           (Error (''Failed to extract video metadata: '' @ exn_to_string (TypeError ''Invalid URL'')))
           st1 w)"

section \<open>Simulated audio extraction of \<^verbatim>\<open>VideoProcessor\<close>\<close>

text \<open>
  \<^verbatim>\<open>VideoProcessor.extractAudioWithRetry\<close>. Each attempt draws \<^verbatim>\<open>Math.random()\<close> once;
  \<open>random k\<close> is the draw of attempt \<open>k\<close>, and the loop counter is \<open>retryCount\<close>
  (\<^verbatim>\<open>maxRetries\<close> is 2). The result is the \<^verbatim>\<open>duration\<close> field of the returned object.
\<close>

function extractAudioWithRetry_from :: "(nat \<Rightarrow> rat) \<Rightarrow> nat \<Rightarrow> exn + string" where
  "extractAudioWithRetry_from random retryCount =
     (if retryCount \<le> 2 then
        (if random retryCount > 0.1 then Inr ''3:45''
         else if retryCount + 1 > 2
              then Inl (Error (''Audio extraction failed after 3 attempts: ''
                         @ exn_to_string (Error ''Audio extraction failed - network error'')))
              else extractAudioWithRetry_from random (retryCount + 1))
      else Inr ''Unknown'')"
  by pat_completeness auto
termination
  by (relation "measure (\<lambda>(random, retryCount). 3 - retryCount)") auto

declare extractAudioWithRetry_from.simps [simp del]

definition extractAudioWithRetry :: "(nat \<Rightarrow> rat) \<Rightarrow> exn + string" where
  "extractAudioWithRetry random = extractAudioWithRetry_from random 0"

section \<open>Concrete inputs\<close>

text \<open>
  A reference, and a runtime given at the arguments at which the examples consult it: the
  host name and the video identifier of that reference (every other reference used below is
  one that \<^verbatim>\<open>new URL\<close> rejects), and \<^verbatim>\<open>JSON.parse\<close> at the one text that an example hands to
  it. No example reaches \<^verbatim>\<open>parseFloat\<close>, the text of a number or the conversion of a string
  to a number.
\<close>

definition sample_url :: string where
  "sample_url = ''https://www.youtube.com/watch?v=dQw4w9WgXcQ''"

text \<open>
  The text \<^verbatim>\<open>{"transcript":{"length":{"toString":1}}}\<close> and the value that \<^verbatim>\<open>JSON.parse\<close>
  returns for it.
\<close>

definition nested_length_text :: string where
  "nested_length_text =
     ''{'' @ [CHR 0x22] @ ''transcript'' @ [CHR 0x22] @ '':{'' @ [CHR 0x22] @ ''length'' @ [CHR 0x22]
       @ '':{'' @ [CHR 0x22] @ ''toString'' @ [CHR 0x22] @ '':1}}}''"

definition nested_length_value :: jsval where
  "nested_length_value =
     Obj [(''transcript'', Obj [(''length'', Obj [(''toString'', Num (Fin 1))])])]"

definition sample_runtime :: runtime where
  "sample_runtime =
     \<lparr> JSON_parse = (\<lambda>s. if s = nested_length_text then Some nested_length_value else None),
       StringToNumber = (\<lambda>s. NaN),
       NumberToString = (\<lambda>n. []),
       parseFloat = (\<lambda>s. NaN),
       URL_hostname = (\<lambda>u. if u = sample_url then Some ''www.youtube.com'' else None),
       extractVideoId = (\<lambda>u. if u = sample_url then ''dQw4w9WgXcQ'' else ''unknown'') \<rparr>"

text \<open>A world in which nothing answers: every request fails.\<close>

definition offline_world :: world where
  "offline_world =
     \<lparr> fetchTranscript = (\<lambda>m r l. Inl (Error ''Transcript is disabled on this video'')),
       generate_reply = FetchThrows (TypeError ''fetch failed''),
       analysis_reply = FetchThrows (TypeError ''fetch failed''),
       clock_start = 0, clock_finish = 1000, clock_id = 1000 \<rparr>"

text \<open>
  A world without captions whose oracle answers the request for generated content with the
  text \<^verbatim>\<open>{"transcript":{"length":{"toString":1}}}\<close>.
\<close>

definition nested_length_world :: world where
  "nested_length_world =
     \<lparr> fetchTranscript = (\<lambda>m r l. Inl (Error ''Transcript is disabled on this video'')),
       generate_reply =
         Response True
           (Some (Obj [(''choices'',
                        Arr [Obj [(''message'', Obj [(''content'', Str nested_length_text)])]])])),
       analysis_reply = FetchThrows (TypeError ''fetch failed''),
       clock_start = 0, clock_finish = 1000, clock_id = 1000 \<rparr>"

text \<open>
  A world without captions whose oracle answers the request for generated content with the
  number 5 in place of a text.
\<close>

definition numeric_content_world :: world where
  "numeric_content_world =
     \<lparr> fetchTranscript = (\<lambda>m r l. Inl (Error ''Transcript is disabled on this video'')),
       generate_reply =
         Response True
           (Some (Obj [(''choices'', Arr [Obj [(''message'', Obj [(''content'', Num (Fin 5))])]])])),
       analysis_reply = FetchThrows (TypeError ''fetch failed''),
       clock_start = 0, clock_finish = 1000, clock_id = 1000 \<rparr>"


text \<open>
  A world whose transcript source answers with the two sentences of the end-to-end scenario
  and whose oracle is unreachable.
\<close>

definition scenario_world :: world where
  "scenario_world =
     \<lparr> fetchTranscript = (\<lambda>m r l.
         Inr [\<lparr> item_text = ''The Great Wall of China is visible from space.'',
                 item_offset = 0, item_duration = 3000 \<rparr>,
              \<lparr> item_text = boiling_point_claim @ ''.'',
                 item_offset = 3000, item_duration = 3000 \<rparr>]),
       generate_reply = FetchThrows (TypeError ''fetch failed''),
       analysis_reply = FetchThrows (TypeError ''fetch failed''),
       clock_start = 0, clock_finish = 1000, clock_id = 1000 \<rparr>"

text \<open>A transcription of one short sentence.\<close>

definition short_transcription :: transcriptionResult where
  "short_transcription =
     \<lparr> transcript_text = ''Hi. Ok!'',
       segments = [\<lparr> seg_start = 0, seg_end = 2, seg_text = ''Hi. Ok!'' \<rparr>] \<rparr>"

text \<open>The transcription of the end-to-end scenario.\<close>

definition scenario_transcription :: transcriptionResult where
  "scenario_transcription =
     \<lparr> transcript_text = ''The Great Wall of China is visible from space. '' @ boiling_point_claim @ ''.'',
       segments = [\<lparr> seg_start = 0, seg_end = 6,
                      seg_text = ''The Great Wall of China is visible from space. '' @ boiling_point_claim @ ''.'' \<rparr>] \<rparr>"

text \<open>
  A parsed oracle response with six evidence items, five sources, a verdict outside the
  canonical labels and a confidence of exactly 0.
\<close>

definition long_response :: jsval where
  "long_response =
     Obj [(''verdict'', Str ''Probably''),
          (''confidence'', Num (Fin 0)),
          (''explanation'', Str ''Six pieces of evidence.''),
          (''evidence'', Arr [Str ''e1'', Str ''e2'', Str ''e3'', Str ''e4'', Str ''e5'', Str ''e6'']),
          (''sources'', Arr [Str ''s1'', Str ''s2'', Str ''s3'', Str ''s4'', Str ''s5''])]"

text \<open>A parsed oracle response whose confidence is the boolean \<^verbatim>\<open>true\<close>.\<close>

definition boolean_confidence_response :: jsval where
  "boolean_confidence_response = Obj [(''verdict'', Str ''True''), (''confidence'', Bool True)]"

definition sample_claim :: claim where
  "sample_claim = \<lparr> ctext = ''Climate change affects weather patterns globally'', ctimestamp = ''1:23'' \<rparr>"

definition false_claim :: verified_claim where
  "false_claim =
     \<lparr> verdict = ''False'', confidence = Fin 0.9, evidence = [], sources = [],
       claim_id = 1, claim_text = ''The universe is shrinking'', claim_timestamp = ''0:45'' \<rparr>"

definition true_claim :: verified_claim where
  "true_claim =
     \<lparr> verdict = ''True'', confidence = Fin 0.9, evidence = [], sources = [],
       claim_id = 2, claim_text = ''Water boils at 100 degrees at sea level'', claim_timestamp = ''1:10'' \<rparr>"

definition false_segment :: analyzed_segment where
  "false_segment =
     \<lparr> segment = ''segment_0_0'', timestamp = ''0:00'',
       sentence = ''The universe is shrinking instead of expanding'',
       analysis = \<lparr> verdict = ''False'', confidence = Fin 0.9, evidence = [], sources = [],
                    explanation = Str ''The universe is expanding.'' \<rparr> \<rparr>"

section \<open>Comparing two runs\<close>

text \<open>
  Two finished runs agree up to time when \<^verbatim>\<open>onProgress\<close> received the same snapshots and the
  reports are equal in every field other than \<^verbatim>\<open>videoId\<close> and \<^verbatim>\<open>processingTime\<close>, where the
  last entry of \<^verbatim>\<open>keyFindings\<close> may be the line that reports each run's own processing time.
\<close>

definition agree_up_to_time :: "run_result \<Rightarrow> run_result \<Rightarrow> bool" where
  "agree_up_to_time a b =
     (snd a = snd b
      \<and> platform (fst a) = platform (fst b)
      \<and> title (fst a) = title (fst b)
      \<and> duration (fst a) = duration (fst b)
      \<and> fullTranscript (fst a) = fullTranscript (fst b)
      \<and> segmentedAnalysis (fst a) = segmentedAnalysis (fst b)
      \<and> overallAccuracy (fst a) = overallAccuracy (fst b)
      \<and> steps (fst a) = steps (fst b)
      \<and> length (keyFindings (fst a)) = length (keyFindings (fst b))
      \<and> butlast (keyFindings (fst a)) = butlast (keyFindings (fst b))
      \<and> (last (keyFindings (fst a)) = last (keyFindings (fst b))
         \<or> (last (keyFindings (fst a)) = Str (''Processing time: '' @ processingTime (fst a))
            \<and> last (keyFindings (fst b)) = Str (''Processing time: '' @ processingTime (fst b)))))"

text \<open>
  A degraded report as \<^verbatim>\<open>ActualVideoProcessor.handleError\<close> builds it: no segments, an overall
  accuracy of 0, a transcript that reads \<^verbatim>\<open>Error: \<close> followed by the failure's message, and two
  key findings, that same text and the suggestion to try another reference.
\<close>

definition degraded_report :: "Report \<Rightarrow> bool" where
  "degraded_report r =
     (platform r = ''Error''
      \<and> segmentedAnalysis r = BuiltSegments []
      \<and> overallAccuracy r = Fin 0
      \<and> (case fullTranscript r of Str t \<Rightarrow> starts_with t ''Error: '' | _ \<Rightarrow> False)
      \<and> keyFindings r = [fullTranscript r, Str ''Please try a different video URL''])"

text \<open>
  The four ways in which a run of \<^verbatim>\<open>processActualVideo\<close> can end: all four steps completed
  and a report for the platform \<^verbatim>\<open>YouTube\<close>; or one of the first three steps in error, the
  steps before it completed and the steps after it still pending, with a degraded report. In
  each case the step names are the initial ones and the last snapshot emitted is the step list
  of the report.
\<close>

definition ends_in_known_shape :: "run_result \<Rightarrow> bool" where
  "ends_in_known_shape res =
     (map step (steps (fst res)) = [''validate'', ''extract'', ''kimiAnalyze'', ''results'']
      \<and> snd res \<noteq> [] \<and> last (snd res) = steps (fst res)
      \<and> (map status (steps (fst res)) = [completed, completed, completed, completed]
           \<and> platform (fst res) = ''YouTube''
         \<or> map status (steps (fst res)) = [error, pending, pending, pending]
           \<and> degraded_report (fst res)
         \<or> map status (steps (fst res)) = [completed, error, pending, pending]
           \<and> degraded_report (fst res)
         \<or> map status (steps (fst res)) = [completed, completed, error, pending]
           \<and> degraded_report (fst res)))"

section \<open>Properties\<close>

subsection \<open>Sanitized judgments\<close>

lemma slice_if_array_length: "length (slice_if_array n v) \<le> n"
  by (cases v) simp_all

lemma get_prop_Inr: "get_prop a k = Inr v \<Longrightarrow> v = get_prop_opt a k"
  by (cases a) auto

lemma sanitizedResult_fields:
  assumes "sanitizedResult rt i c r = Inr vc"
  shows "evidence vc = slice_if_array 4 (get_prop_opt r ''evidence'')"
    and "sources vc = slice_if_array 3 (get_prop_opt r ''sources'')"
    and "verdict vc = sanitize_verdict (get_prop_opt r ''verdict'')"
    and "clamp_confidence rt (get_prop_opt r ''confidence'') = Inr (confidence vc)"
  using assms by (auto simp: sanitizedResult_def split: sum.splits dest: get_prop_Inr)

lemma sanitize_real_fields:
  assumes "sanitize_real rt r = Inr j"
  shows "evidence j = slice_if_array 3 (get_prop_opt r ''evidence'')"
    and "sources j = slice_if_array 2 (get_prop_opt r ''sources'')"
    and "verdict j = sanitize_verdict (get_prop_opt r ''verdict'')"
    and "clamp_confidence rt (get_prop_opt r ''confidence'') = Inr (confidence j)"
  using assms by (auto simp: sanitize_real_def split: sum.splits dest: get_prop_Inr)

lemma sanitize_free_fields:
  assumes "sanitize_free rt r = Inr j"
  shows "evidence j = slice_if_array 4 (get_prop_opt r ''evidence'')"
    and "sources j = slice_if_array 3 (get_prop_opt r ''sources'')"
    and "verdict j = sanitize_verdict (get_prop_opt r ''verdict'')"
    and "clamp_confidence rt (get_prop_opt r ''confidence'') = Inr (confidence j)"
  using assms by (auto simp: sanitize_free_def split: sum.splits dest: get_prop_Inr)

text \<open>The three sanitizers at the response with six evidence items and five sources.\<close>

lemma sanitizedResult_long_response:
  "sanitizedResult sample_runtime 0 sample_claim long_response =
     Inr \<lparr> verdict = ''Mixed'', confidence = Fin 0.5,
           evidence = [Str ''e1'', Str ''e2'', Str ''e3'', Str ''e4''],
           sources = [Str ''s1'', Str ''s2'', Str ''s3''],
           claim_id = 1, claim_text = ''Climate change affects weather patterns globally'',
           claim_timestamp = ''1:23'' \<rparr>"
  by (simp add: sanitizedResult_def long_response_def clamp_confidence_def js_or_def
      canonical_verdicts_def sample_claim_def)

lemma sanitize_real_long_response:
  "sanitize_real sample_runtime long_response =
     Inr \<lparr> verdict = ''Mixed'', confidence = Fin 0.5,
           evidence = [Str ''e1'', Str ''e2'', Str ''e3''],
           sources = [Str ''s1'', Str ''s2''],
           explanation = Str ''Six pieces of evidence.'' \<rparr>"
  by (simp add: sanitize_real_def long_response_def clamp_confidence_def js_or_def
      canonical_verdicts_def)

lemma sanitize_free_long_response:
  "sanitize_free sample_runtime long_response =
     Inr \<lparr> verdict = ''Mixed'', confidence = Fin 0.5,
           evidence = [Str ''e1'', Str ''e2'', Str ''e3'', Str ''e4''],
           sources = [Str ''s1'', Str ''s2'', Str ''s3''],
           explanation = Str ''Six pieces of evidence.'' \<rparr>"
  by (simp add: sanitize_free_def long_response_def clamp_confidence_def js_or_def
      canonical_verdicts_def)

text \<open>
  C5. Whatever the parsed response is, a judgment that a sanitizer returns holds at most four
  evidence items and at most three sources. This holds for the sanitizer of
  \<^verbatim>\<open>VideoProcessor.factCheckClaims\<close>, of \<^verbatim>\<open>RealVideoProcessor.analyzeSegmentWithKimi\<close> (which
  cuts at three and two) and of \<^verbatim>\<open>FreeVideoProcessor.analyzeSegmentWithRealKimi\<close>; a list is
  cut to its first items and a field that is no list becomes the empty list.
\<close>

theorem sanitized_evidence_and_sources_capped:
  "(sanitizedResult rt i c r = Inr vc \<longrightarrow>
      length (evidence vc) \<le> 4 \<and> length (sources vc) \<le> 3
      \<and> evidence vc = (case get_prop_opt r ''evidence'' of Arr xs \<Rightarrow> take 4 xs | _ \<Rightarrow> [])
      \<and> sources vc = (case get_prop_opt r ''sources'' of Arr xs \<Rightarrow> take 3 xs | _ \<Rightarrow> []))
   \<and> (sanitize_real rt r = Inr j \<longrightarrow>
      length (evidence j) \<le> 4 \<and> length (sources j) \<le> 3
      \<and> evidence j = (case get_prop_opt r ''evidence'' of Arr xs \<Rightarrow> take 3 xs | _ \<Rightarrow> [])
      \<and> sources j = (case get_prop_opt r ''sources'' of Arr xs \<Rightarrow> take 2 xs | _ \<Rightarrow> []))
   \<and> (sanitize_free rt r = Inr j' \<longrightarrow>
      length (evidence j') \<le> 4 \<and> length (sources j') \<le> 3
      \<and> evidence j' = (case get_prop_opt r ''evidence'' of Arr xs \<Rightarrow> take 4 xs | _ \<Rightarrow> [])
      \<and> sources j' = (case get_prop_opt r ''sources'' of Arr xs \<Rightarrow> take 3 xs | _ \<Rightarrow> []))"
proof -
  have cut: "slice_if_array n v = (case v of Arr xs \<Rightarrow> take n xs | _ \<Rightarrow> [])" for n v
    by (cases v) simp_all
  have first: "length (evidence vc) \<le> 4 \<and> length (sources vc) \<le> 3
      \<and> evidence vc = (case get_prop_opt r ''evidence'' of Arr xs \<Rightarrow> take 4 xs | _ \<Rightarrow> [])
      \<and> sources vc = (case get_prop_opt r ''sources'' of Arr xs \<Rightarrow> take 3 xs | _ \<Rightarrow> [])"
    if h: "sanitizedResult rt i c r = Inr vc"
    using sanitizedResult_fields(1,2)[OF h] slice_if_array_length[of 4] slice_if_array_length[of 3]
    by (simp add: cut[symmetric])
  have second: "length (evidence j) \<le> 4 \<and> length (sources j) \<le> 3
      \<and> evidence j = (case get_prop_opt r ''evidence'' of Arr xs \<Rightarrow> take 3 xs | _ \<Rightarrow> [])
      \<and> sources j = (case get_prop_opt r ''sources'' of Arr xs \<Rightarrow> take 2 xs | _ \<Rightarrow> [])"
    if h: "sanitize_real rt r = Inr j"
  proof -
    have "length (evidence j) \<le> 3" "length (sources j) \<le> 2"
      by (simp_all add: sanitize_real_fields(1,2)[OF h] slice_if_array_length)
    then show ?thesis
      using sanitize_real_fields(1,2)[OF h] by (simp add: cut[symmetric])
  qed
  have third: "length (evidence j') \<le> 4 \<and> length (sources j') \<le> 3
      \<and> evidence j' = (case get_prop_opt r ''evidence'' of Arr xs \<Rightarrow> take 4 xs | _ \<Rightarrow> [])
      \<and> sources j' = (case get_prop_opt r ''sources'' of Arr xs \<Rightarrow> take 3 xs | _ \<Rightarrow> [])"
    if h: "sanitize_free rt r = Inr j'"
    using sanitize_free_fields(1,2)[OF h] slice_if_array_length[of 4] slice_if_array_length[of 3]
    by (simp add: cut[symmetric])
  from first second third show ?thesis by blast
qed

theorem sanitized_evidence_and_sources_capped_witness:
  "(\<exists>vc. sanitizedResult sample_runtime 0 sample_claim long_response = Inr vc
        \<and> length (evidence vc) \<le> 4 \<and> length (sources vc) \<le> 3)
   \<and> (\<exists>j. sanitize_real sample_runtime long_response = Inr j
        \<and> length (evidence j) \<le> 4 \<and> length (sources j) \<le> 3)
   \<and> (\<exists>j. sanitize_free sample_runtime long_response = Inr j
        \<and> length (evidence j) \<le> 4 \<and> length (sources j) \<le> 3)"
  using sanitized_evidence_and_sources_capped
          [of sample_runtime 0 sample_claim long_response _ _ _]
        sanitizedResult_long_response sanitize_real_long_response sanitize_free_long_response
  by blast

lemma sanitize_verdict_canonical: "sanitize_verdict v \<in> set canonical_verdicts"
  by (cases v) (simp_all add: canonical_verdicts_def)

lemma sanitize_verdict_coerced:
  "(\<forall>s. v = Str s \<longrightarrow> s \<notin> set canonical_verdicts) \<Longrightarrow> sanitize_verdict v = ''Mixed''"
  by (cases v) simp_all

lemma sanitize_verdict_kept:
  "s \<in> set canonical_verdicts \<Longrightarrow> sanitize_verdict (Str s) = s"
  by simp

lemma generateFallbackAnalysis_canonical:
  "verdict (generateFallbackAnalysis t) \<in> set canonical_verdicts"
  by (simp add: generateFallbackAnalysis_def canonical_verdicts_def Let_def)

lemma getFallbackAnalysis_canonical:
  "verdict (getFallbackAnalysis t) \<in> set canonical_verdicts"
  by (simp add: getFallbackAnalysis_def canonical_verdicts_def Let_def)

lemma getIntelligentFallback_canonical:
  "verdict (getIntelligentFallback t) \<in> set canonical_verdicts"
  by (simp add: getIntelligentFallback_def canonical_verdicts_def Let_def)

lemma factCheckClaim_canonical:
  "verdict (factCheckClaim rt reply i c) \<in> set canonical_verdicts"
proof -
  have ok: "verdict v \<in> set canonical_verdicts" if "sanitizedResult rt i c r = Inr v" for r v
    using sanitizedResult_fields(3)[OF that] sanitize_verdict_canonical by simp
  show ?thesis
    unfolding factCheckClaim_def Let_def
    by (auto split: sum.splits simp: generateFallbackAnalysis_canonical dest: ok)
qed

lemma analyzeSegmentWithKimi_canonical:
  "analyzeSegmentWithKimi rt reply = Inr j \<Longrightarrow> verdict j \<in> set canonical_verdicts"
  unfolding analyzeSegmentWithKimi_def analyzeSegmentWithKimi_try_def
  using sanitize_real_fields(3) sanitize_verdict_canonical
  by (auto split: sum.splits http_reply.splits if_splits)

lemma analyzeSegmentWithRealKimi_canonical:
  "analyzeSegmentWithRealKimi rt reply = Inr j \<Longrightarrow> verdict j \<in> set canonical_verdicts"
  unfolding analyzeSegmentWithRealKimi_def
  using sanitize_free_fields(3) sanitize_verdict_canonical
  by (auto split: sum.splits http_reply.splits if_splits option.splits)

lemma in_set_enumerate_snd: "(i, x) \<in> set (enumerate n xs) \<Longrightarrow> x \<in> set xs"
  by (auto simp: in_set_enumerate_eq)

text \<open>
  C6. A judgment that a sanitizer returns carries one of the five canonical labels, and a
  verdict of the response that is no canonical label (a string outside the set, or no string
  at all) becomes \<^verbatim>\<open>Mixed\<close>, while a canonical label is kept. The same holds for everything
  the verifier loops produce, where a failed oracle call is replaced by the local judgment.
\<close>

theorem sanitized_verdict_canonical:
  "(sanitizedResult rt i c r = Inr vc \<longrightarrow>
      verdict vc \<in> set canonical_verdicts
      \<and> ((\<forall>s. get_prop_opt r ''verdict'' = Str s \<longrightarrow> s \<notin> set canonical_verdicts) \<longrightarrow> verdict vc = ''Mixed'')
      \<and> (\<forall>s. get_prop_opt r ''verdict'' = Str s \<longrightarrow> s \<in> set canonical_verdicts \<longrightarrow> verdict vc = s))
   \<and> (sanitize_real rt r = Inr j \<longrightarrow>
      verdict j \<in> set canonical_verdicts
      \<and> ((\<forall>s. get_prop_opt r ''verdict'' = Str s \<longrightarrow> s \<notin> set canonical_verdicts) \<longrightarrow> verdict j = ''Mixed'')
      \<and> (\<forall>s. get_prop_opt r ''verdict'' = Str s \<longrightarrow> s \<in> set canonical_verdicts \<longrightarrow> verdict j = s))
   \<and> (sanitize_free rt r = Inr j' \<longrightarrow>
      verdict j' \<in> set canonical_verdicts
      \<and> ((\<forall>s. get_prop_opt r ''verdict'' = Str s \<longrightarrow> s \<notin> set canonical_verdicts) \<longrightarrow> verdict j' = ''Mixed'')
      \<and> (\<forall>s. get_prop_opt r ''verdict'' = Str s \<longrightarrow> s \<in> set canonical_verdicts \<longrightarrow> verdict j' = s))
   \<and> (\<forall>v \<in> set (factCheckClaims rt replies claims). verdict v \<in> set canonical_verdicts)
   \<and> (\<forall>a \<in> set (analyzeSegmentsWithKimi rt replies segs). verdict (analysis a) \<in> set canonical_verdicts)
   \<and> (\<forall>a \<in> set (analyzeWithKimi rt replies segs). verdict (analysis a) \<in> set canonical_verdicts)"
proof -
  have one: "verdict x \<in> set canonical_verdicts
      \<and> ((\<forall>s. get_prop_opt r ''verdict'' = Str s \<longrightarrow> s \<notin> set canonical_verdicts) \<longrightarrow> verdict x = ''Mixed'')
      \<and> (\<forall>s. get_prop_opt r ''verdict'' = Str s \<longrightarrow> s \<in> set canonical_verdicts \<longrightarrow> verdict x = s)"
    if "verdict x = sanitize_verdict (get_prop_opt r ''verdict'')" for x :: "'a assessment_scheme"
    using that sanitize_verdict_canonical[of "get_prop_opt r ''verdict''"]
      sanitize_verdict_coerced[of "get_prop_opt r ''verdict''"]
    by auto
  have a: "sanitizedResult rt i c r = Inr vc \<longrightarrow>
      verdict vc \<in> set canonical_verdicts
      \<and> ((\<forall>s. get_prop_opt r ''verdict'' = Str s \<longrightarrow> s \<notin> set canonical_verdicts) \<longrightarrow> verdict vc = ''Mixed'')
      \<and> (\<forall>s. get_prop_opt r ''verdict'' = Str s \<longrightarrow> s \<in> set canonical_verdicts \<longrightarrow> verdict vc = s)"
    using one[OF sanitizedResult_fields(3)] by blast
  have b: "sanitize_real rt r = Inr j \<longrightarrow>
      verdict j \<in> set canonical_verdicts
      \<and> ((\<forall>s. get_prop_opt r ''verdict'' = Str s \<longrightarrow> s \<notin> set canonical_verdicts) \<longrightarrow> verdict j = ''Mixed'')
      \<and> (\<forall>s. get_prop_opt r ''verdict'' = Str s \<longrightarrow> s \<in> set canonical_verdicts \<longrightarrow> verdict j = s)"
    using one[OF sanitize_real_fields(3)] by blast
  have c: "sanitize_free rt r = Inr j' \<longrightarrow>
      verdict j' \<in> set canonical_verdicts
      \<and> ((\<forall>s. get_prop_opt r ''verdict'' = Str s \<longrightarrow> s \<notin> set canonical_verdicts) \<longrightarrow> verdict j' = ''Mixed'')
      \<and> (\<forall>s. get_prop_opt r ''verdict'' = Str s \<longrightarrow> s \<in> set canonical_verdicts \<longrightarrow> verdict j' = s)"
    using one[OF sanitize_free_fields(3)] by blast
  have d: "\<forall>v \<in> set (factCheckClaims rt replies claims). verdict v \<in> set canonical_verdicts"
    by (auto simp: factCheckClaims_def factCheckClaim_canonical)
  have e: "\<forall>a \<in> set (analyzeSegmentsWithKimi rt replies segs). verdict (analysis a) \<in> set canonical_verdicts"
    by (auto simp: analyzeSegmentsWithKimi_def with_analysis_def getFallbackAnalysis_canonical
        split: sum.splits dest: analyzeSegmentWithKimi_canonical)
  have f: "\<forall>a \<in> set (analyzeWithKimi rt replies segs). verdict (analysis a) \<in> set canonical_verdicts"
    by (auto simp: analyzeWithKimi_def with_analysis_def getIntelligentFallback_canonical
        split: sum.splits dest: analyzeSegmentWithRealKimi_canonical)
  from a b c d e f show ?thesis by (intro conjI)
qed

lemma long_response_verdict:
  "get_prop_opt long_response ''verdict'' = Str ''Probably''"
  "''Probably'' \<notin> set canonical_verdicts"
  by (simp_all add: long_response_def canonical_verdicts_def)

theorem sanitized_verdict_canonical_witness:
  "get_prop_opt long_response ''verdict'' = Str ''Probably''
   \<and> ''Probably'' \<notin> set canonical_verdicts
   \<and> (\<exists>vc. sanitizedResult sample_runtime 0 sample_claim long_response = Inr vc \<and> verdict vc = ''Mixed'')
   \<and> (\<exists>j. sanitize_real sample_runtime long_response = Inr j \<and> verdict j = ''Mixed'')
   \<and> (\<exists>j. sanitize_free sample_runtime long_response = Inr j \<and> verdict j = ''Mixed'')
   \<and> list_all (\<lambda>v. verdict v \<in> set canonical_verdicts)
        (factCheckClaims sample_runtime (\<lambda>i. FetchThrows (TypeError ''fetch failed'')) [sample_claim])"
proof -
  obtain vc where vc: "sanitizedResult sample_runtime 0 sample_claim long_response = Inr vc"
    using sanitizedResult_long_response by blast
  obtain jr where jr: "sanitize_real sample_runtime long_response = Inr jr"
    using sanitize_real_long_response by blast
  obtain jf where jf: "sanitize_free sample_runtime long_response = Inr jf"
    using sanitize_free_long_response by blast
  have h: "\<forall>s. get_prop_opt long_response ''verdict'' = Str s \<longrightarrow> s \<notin> set canonical_verdicts"
    using long_response_verdict by simp
  note t = sanitized_verdict_canonical
             [of sample_runtime 0 sample_claim long_response vc jr jf
                 "\<lambda>i. FetchThrows (TypeError ''fetch failed'')" "[sample_claim]" "[]"]
  from t vc h have 1: "verdict vc = ''Mixed''" by blast
  from t jr h have 2: "verdict jr = ''Mixed''" by blast
  from t jf h have 3: "verdict jf = ''Mixed''" by blast
  from t have 4: "list_all (\<lambda>v. verdict v \<in> set canonical_verdicts)
        (factCheckClaims sample_runtime (\<lambda>i. FetchThrows (TypeError ''fetch failed'')) [sample_claim])"
    unfolding list_all_iff by blast
  from long_response_verdict vc jr jf 1 2 3 4 show ?thesis by blast
qed
text \<open>
  \<^verbatim>\<open>ActualVideoProcessor.kimiCompleteAnalysis\<close> has no sanitizer: whatever truthy value the
  oracle sends under \<^verbatim>\<open>segments\<close> becomes the segments of the analysis as it is, provided
  \<^verbatim>\<open>parseFloat\<close> can convert the accuracy that comes with it.
\<close>

lemma analysis_from_json_passes_segments:
  assumes "parse_cleaned rt content_response = Inr a"
    and "truthy (get_prop_opt a ''segments'')"
    and "a \<noteq> Null" and "a \<noteq> Undefined"
    and "ToString rt (get_prop_opt a ''overallAccuracy'') = Inr accuracy_text"
  shows "map_sum id a_segments (analysis_from_json rt content_response)
           = Inr (OracleSegments (get_prop_opt a ''segments''))"
  using assms by (cases a) (simp_all add: analysis_from_json_def)

subsection \<open>The default confidence\<close>

lemma clamp_confidence_falsy: "\<not> truthy v \<Longrightarrow> clamp_confidence rt v = Inr (Fin 0.5)"
  by (simp add: clamp_confidence_def js_or_def)

lemma clamp_confidence_true: "clamp_confidence rt (Bool True) = Inr (Fin 1)"
  by (simp add: clamp_confidence_def js_or_def)

lemma clamp_confidence_number:
  "x \<noteq> 0 \<Longrightarrow> clamp_confidence rt (Num (Fin x)) = Inr (Fin (min (max x 0) 1))"
  by (simp add: clamp_confidence_def js_or_def)

text \<open>
  C10, as the claim states it, fails: a confidence that is no number is not always replaced
  by 0.5. For the response \<^verbatim>\<open>{"verdict": "True", "confidence": true}\<close> all three sanitizers
  return the confidence 1, since \<^verbatim>\<open>true || 0.5\<close> is \<^verbatim>\<open>true\<close> and \<^verbatim>\<open>Math.max(true, 0)\<close> is 1.
\<close>

theorem boolean_confidence_becomes_one:
  "sanitize_free sample_runtime boolean_confidence_response =
     Inr \<lparr> verdict = ''True'', confidence = Fin 1, evidence = [], sources = [],
           explanation = Str ''Analysis completed with available information.'' \<rparr>
   \<and> sanitize_real sample_runtime boolean_confidence_response =
     Inr \<lparr> verdict = ''True'', confidence = Fin 1, evidence = [], sources = [],
           explanation = Str ''Analysis completed with available information.'' \<rparr>
   \<and> sanitizedResult sample_runtime 0 sample_claim boolean_confidence_response =
     Inr \<lparr> verdict = ''True'', confidence = Fin 1, evidence = [], sources = [],
           claim_id = 1, claim_text = ''Climate change affects weather patterns globally'',
           claim_timestamp = ''1:23'' \<rparr>
   \<and> Fin 1 \<noteq> Fin 0.5"
  by (simp add: sanitize_free_def sanitize_real_def sanitizedResult_def sample_claim_def
      boolean_confidence_response_def clamp_confidence_def js_or_def canonical_verdicts_def)

text \<open>
  C10, amended. When the confidence of a parsed response is missing or falsy
  (\<^verbatim>\<open>undefined\<close>, \<^verbatim>\<open>null\<close>, \<^verbatim>\<open>false\<close>, the number 0, \<^verbatim>\<open>NaN\<close> or the empty string), the
  sanitized confidence is 0.5; in particular a reported confidence of exactly 0 is not kept.
  Every other value is converted to a number and clamped: a finite number other than 0 is
  clamped into the interval from 0 to 1, and the boolean \<^verbatim>\<open>true\<close> becomes 1.
\<close>

theorem falsy_confidence_becomes_half:
  "(get_prop_opt r ''confidence'' \<in> {Undefined, Null, Bool False, Num (Fin 0), Num NaN, Str []} \<longrightarrow>
      (sanitizedResult rt i c r = Inr vc \<longrightarrow> confidence vc = Fin 0.5)
      \<and> (sanitize_real rt r = Inr j \<longrightarrow> confidence j = Fin 0.5)
      \<and> (sanitize_free rt r = Inr j' \<longrightarrow> confidence j' = Fin 0.5))
   \<and> (get_prop_opt r ''confidence'' = Bool True \<longrightarrow>
      (sanitizedResult rt i c r = Inr vc \<longrightarrow> confidence vc = Fin 1)
      \<and> (sanitize_real rt r = Inr j \<longrightarrow> confidence j = Fin 1)
      \<and> (sanitize_free rt r = Inr j' \<longrightarrow> confidence j' = Fin 1))
   \<and> (\<forall>x. get_prop_opt r ''confidence'' = Num (Fin x) \<longrightarrow> x \<noteq> 0 \<longrightarrow>
      (sanitizedResult rt i c r = Inr vc \<longrightarrow> confidence vc = Fin (min (max x 0) 1))
      \<and> (sanitize_real rt r = Inr j \<longrightarrow> confidence j = Fin (min (max x 0) 1))
      \<and> (sanitize_free rt r = Inr j' \<longrightarrow> confidence j' = Fin (min (max x 0) 1)))"
proof -
  have all_three:
    "(sanitizedResult rt i c r = Inr vc \<longrightarrow> confidence vc = k)
      \<and> (sanitize_real rt r = Inr j \<longrightarrow> confidence j = k)
      \<and> (sanitize_free rt r = Inr j' \<longrightarrow> confidence j' = k)"
    if "clamp_confidence rt (get_prop_opt r ''confidence'') = Inr k" for k
    using that sanitizedResult_fields(4)[of rt i c r vc] sanitize_real_fields(4)[of rt r j]
      sanitize_free_fields(4)[of rt r j']
    by simp
  have falsy: "clamp_confidence rt (get_prop_opt r ''confidence'') = Inr (Fin 0.5)"
    if "get_prop_opt r ''confidence'' \<in> {Undefined, Null, Bool False, Num (Fin 0), Num NaN, Str []}"
  proof -
    from that have "\<not> truthy (get_prop_opt r ''confidence'')" by auto
    then show ?thesis by (rule clamp_confidence_falsy)
  qed
  have true: "clamp_confidence rt (get_prop_opt r ''confidence'') = Inr (Fin 1)"
    if "get_prop_opt r ''confidence'' = Bool True"
    using that by (simp add: clamp_confidence_true)
  have number: "clamp_confidence rt (get_prop_opt r ''confidence'') = Inr (Fin (min (max x 0) 1))"
    if "get_prop_opt r ''confidence'' = Num (Fin x)" "x \<noteq> 0" for x
    using that by (simp add: clamp_confidence_number)
  show ?thesis
  proof (intro conjI impI allI)
    assume "get_prop_opt r ''confidence'' \<in> {Undefined, Null, Bool False, Num (Fin 0), Num NaN, Str []}"
    from all_three[OF falsy[OF this]]
    show "sanitizedResult rt i c r = Inr vc \<Longrightarrow> confidence vc = Fin 0.5"
      and "sanitize_real rt r = Inr j \<Longrightarrow> confidence j = Fin 0.5"
      and "sanitize_free rt r = Inr j' \<Longrightarrow> confidence j' = Fin 0.5"
      by blast+
  next
    assume "get_prop_opt r ''confidence'' = Bool True"
    from all_three[OF true[OF this]]
    show "sanitizedResult rt i c r = Inr vc \<Longrightarrow> confidence vc = Fin 1"
      and "sanitize_real rt r = Inr j \<Longrightarrow> confidence j = Fin 1"
      and "sanitize_free rt r = Inr j' \<Longrightarrow> confidence j' = Fin 1"
      by blast+
  next
    fix x assume "get_prop_opt r ''confidence'' = Num (Fin x)" "x \<noteq> 0"
    from all_three[OF number[OF this]]
    show "sanitizedResult rt i c r = Inr vc \<Longrightarrow> confidence vc = Fin (min (max x 0) 1)"
      and "sanitize_real rt r = Inr j \<Longrightarrow> confidence j = Fin (min (max x 0) 1)"
      and "sanitize_free rt r = Inr j' \<Longrightarrow> confidence j' = Fin (min (max x 0) 1)"
      by blast+
  qed
qed

theorem falsy_confidence_becomes_half_witness:
  "get_prop_opt long_response ''confidence'' = Num (Fin 0)
   \<and> (\<exists>vc. sanitizedResult sample_runtime 0 sample_claim long_response = Inr vc \<and> confidence vc = Fin 0.5)
   \<and> (\<exists>j. sanitize_real sample_runtime long_response = Inr j \<and> confidence j = Fin 0.5)
   \<and> (\<exists>j. sanitize_free sample_runtime long_response = Inr j \<and> confidence j = Fin 0.5)"
proof -
  have c: "get_prop_opt long_response ''confidence'' = Num (Fin 0)"
    by (simp add: long_response_def)
  obtain vc where vc: "sanitizedResult sample_runtime 0 sample_claim long_response = Inr vc"
    using sanitizedResult_long_response by blast
  obtain jr where jr: "sanitize_real sample_runtime long_response = Inr jr"
    using sanitize_real_long_response by blast
  obtain jf where jf: "sanitize_free sample_runtime long_response = Inr jf"
    using sanitize_free_long_response by blast
  note t = falsy_confidence_becomes_half [of long_response sample_runtime 0 sample_claim vc jr jf]
  from t c vc jr jf
  have "confidence vc = Fin 0.5 \<and> confidence jr = Fin 0.5 \<and> confidence jf = Fin 0.5"
    by simp
  with c vc jr jf show ?thesis by blast
qed

subsection \<open>Local heuristic judgments\<close>

lemma lower_boiling_point_claim:
  "toLowerCase boiling_point_claim = ''water boils at 100'' @ [CHR 0xB0] @ ''c at sea level''"
  by code_simp

lemma getIntelligentFallback_boiling_point:
  "getIntelligentFallback boiling_point_claim =
     \<lparr> verdict = ''Mixed'', confidence = Fin 0.6,
       evidence = [Str ''Statement analyzed but needs further verification with primary sources''],
       sources = [source_entry ''General Fact-Check Analysis'' ''#'' 0.7],
       explanation = Str ''This statement requires additional verification with authoritative sources to determine complete factual accuracy.'' \<rparr>"
  by (simp add: getIntelligentFallback_def lower_boiling_point_claim)

lemma getFallbackAnalysis_boiling_point:
  "getFallbackAnalysis boiling_point_claim =
     \<lparr> verdict = ''Mixed'', confidence = Fin 0.6,
       evidence = [Str ''Statement analyzed but requires further verification''],
       sources = [],
       explanation = Str ''This statement requires additional verification with authoritative sources to determine complete accuracy.'' \<rparr>"
  by (simp add: getFallbackAnalysis_def lower_boiling_point_claim)

lemma generateFallbackAnalysis_boiling_point:
  "generateFallbackAnalysis boiling_point_claim =
     \<lparr> verdict = ''Mixed'', confidence = Fin 0.6,
       evidence = [Str ''Claim requires additional verification with authoritative sources''],
       sources = [source_entry ''General Fact-Check Analysis'' ''#'' 0.7] \<rparr>"
  by (simp add: generateFallbackAnalysis_def lower_boiling_point_claim)

text \<open>
  C7, as the claim states it, fails: for the sentence \<^verbatim>\<open>Water boils at 100\<degree>C at sea level\<close>
  the fallback of \<^verbatim>\<open>FreeVideoProcessor\<close> answers \<^verbatim>\<open>Mixed\<close> with confidence 0.6, not
  \<^verbatim>\<open>True\<close>.
\<close>

theorem boiling_point_fallback_is_mixed:
  "verdict (getIntelligentFallback boiling_point_claim) = ''Mixed''
   \<and> confidence (getIntelligentFallback boiling_point_claim) = Fin 0.6
   \<and> verdict (getIntelligentFallback boiling_point_claim) \<noteq> ''True''"
  by (simp add: getIntelligentFallback_boiling_point)

text \<open>
  C7, amended. When the oracle is unreachable for a segment whose sentence is the
  boiling-point claim, every verifier loop (\<^verbatim>\<open>analyzeWithKimi\<close>, \<^verbatim>\<open>analyzeSegmentsWithKimi\<close>,
  \<^verbatim>\<open>factCheckClaims\<close>) gives it the generic default of its local heuristic: the verdict
  \<^verbatim>\<open>Mixed\<close> with confidence 0.6. No pattern of any of the three heuristics mentions boiling
  water.
\<close>

theorem boiling_point_gets_default_judgment:
  "map analysis (analyzeWithKimi rt (\<lambda>i. FetchThrows e) [seg\<lparr> sentence := boiling_point_claim \<rparr>])
     = [getIntelligentFallback boiling_point_claim]
   \<and> map analysis (analyzeSegmentsWithKimi rt (\<lambda>i. FetchThrows e) [seg\<lparr> sentence := boiling_point_claim \<rparr>])
     = [getFallbackAnalysis boiling_point_claim]
   \<and> map (\<lambda>v. (verdict v, confidence v, evidence v, sources v))
        (factCheckClaims rt (\<lambda>i. FetchThrows e) [c\<lparr> ctext := boiling_point_claim \<rparr>])
     = [(verdict (generateFallbackAnalysis boiling_point_claim),
         confidence (generateFallbackAnalysis boiling_point_claim),
         evidence (generateFallbackAnalysis boiling_point_claim),
         sources (generateFallbackAnalysis boiling_point_claim))]
   \<and> verdict (getIntelligentFallback boiling_point_claim) = ''Mixed''
   \<and> confidence (getIntelligentFallback boiling_point_claim) = Fin 0.6
   \<and> verdict (getFallbackAnalysis boiling_point_claim) = ''Mixed''
   \<and> confidence (getFallbackAnalysis boiling_point_claim) = Fin 0.6
   \<and> verdict (generateFallbackAnalysis boiling_point_claim) = ''Mixed''
   \<and> confidence (generateFallbackAnalysis boiling_point_claim) = Fin 0.6"
proof -
  have a: "map analysis (analyzeWithKimi rt (\<lambda>i. FetchThrows e) [seg\<lparr> sentence := boiling_point_claim \<rparr>])
     = [getIntelligentFallback boiling_point_claim]"
    by (simp add: analyzeWithKimi_def analyzeSegmentWithRealKimi_def with_analysis_def)
  have b: "map analysis (analyzeSegmentsWithKimi rt (\<lambda>i. FetchThrows e) [seg\<lparr> sentence := boiling_point_claim \<rparr>])
     = [getFallbackAnalysis boiling_point_claim]"
    by (simp add: analyzeSegmentsWithKimi_def analyzeSegmentWithKimi_def
        analyzeSegmentWithKimi_try_def with_analysis_def)
  have c: "map (\<lambda>v. (verdict v, confidence v, evidence v, sources v))
        (factCheckClaims rt (\<lambda>i. FetchThrows e) [c\<lparr> ctext := boiling_point_claim \<rparr>])
     = [(verdict (generateFallbackAnalysis boiling_point_claim),
         confidence (generateFallbackAnalysis boiling_point_claim),
         evidence (generateFallbackAnalysis boiling_point_claim),
         sources (generateFallbackAnalysis boiling_point_claim))]"
    by (simp add: factCheckClaims_def factCheckClaim_def Let_def)
  show ?thesis
    using a b c
    by (simp add: getIntelligentFallback_boiling_point getFallbackAnalysis_boiling_point
        generateFallbackAnalysis_boiling_point)
qed

subsection \<open>Overall accuracy\<close>

lemma foldl_add_sum_list:
  "foldl (\<lambda>sum x. sum + f x) a xs = a + sum_list (map f xs)"
  for a :: rat
  by (induction xs arbitrary: a) (simp_all add: add.assoc)

lemma score_or_default_values:
  "score_or_default ''True'' = 1"
  "score_or_default ''Mostly True'' = 0.8"
  "score_or_default ''Mixed'' = 0.5"
  "score_or_default ''Mostly False'' = 0.2"
  "score_or_default ''False'' = 0.5"
  by (simp_all add: score_or_default_def scoreMap_def)

text \<open>
  Where the verdict \<^verbatim>\<open>False\<close> does not occur, the score of the code is the mean of the
  specification.
\<close>

lemma score_is_spec_score:
  "v \<in> set canonical_verdicts \<Longrightarrow> v \<noteq> ''False'' \<Longrightarrow> score_or_default v = spec_score v"
  by (auto simp: canonical_verdicts_def score_or_default_values spec_score_def)

lemma calculateOverallScore_without_False:
  assumes "\<forall>c \<in> set claims. verdict c \<in> set canonical_verdicts \<and> verdict c \<noteq> ''False''"
  shows "calculateOverallScore claims = Fin (spec_mean (map verdict claims))"
proof -
  have "sum_list (map (\<lambda>c. score_or_default (verdict c)) claims)
          = sum_list (map spec_score (map verdict claims))"
    using assms by (induction claims) (simp_all add: score_is_spec_score)
  then show ?thesis
    by (simp add: calculateOverallScore_def spec_mean_def divide_by_count_def foldl_add_sum_list)
qed

text \<open>
  C4, at the inputs where the code departs from the claim. A \<^verbatim>\<open>False\<close> verdict scores 0.5,
  because \<^verbatim>\<open>scoreMap['False'] || 0.5\<close> replaces the table's 0 by the default: a single
  \<^verbatim>\<open>False\<close> claim scores 0.5 (the mean of the specification is 0), and one \<^verbatim>\<open>True\<close> with one
  \<^verbatim>\<open>False\<close> scores 0.75 (the mean is 0.5). \<^verbatim>\<open>synthesizeInsights\<close> and \<^verbatim>\<open>generateInsights\<close> have
  the same table and default and, unlike \<^verbatim>\<open>calculateOverallScore\<close>, no guard for the empty
  sequence, for which they compute \<^verbatim>\<open>0 / 0\<close>.
\<close>

theorem false_verdict_scores_half:
  "calculateOverallScore [false_claim] = Fin 0.5
   \<and> spec_mean [''False''] = 0
   \<and> calculateOverallScore [true_claim, false_claim] = Fin 0.75
   \<and> spec_mean [''True'', ''False''] = 0.5
   \<and> calculateOverallScore [] = Fin 0
   \<and> i_overallAccuracy (synthesizeInsights [false_segment]) = Fin 0.5
   \<and> i_overallAccuracy (generateInsights [false_segment]) = Fin 0.5
   \<and> i_overallAccuracy (synthesizeInsights []) = NaN
   \<and> i_overallAccuracy (generateInsights []) = NaN"
  by (simp add: calculateOverallScore_def false_claim_def true_claim_def score_or_default_values
      divide_by_count_def spec_mean_def spec_score_def synthesizeInsights_def generateInsights_def
      false_segment_def Let_def)

subsection \<open>Segmenter\<close>

lemma map_enumerate_ignoring_index:
  "map (\<lambda>(i, x). f x) (enumerate n xs) = map f xs"
  by (induction xs arbitrary: n) simp_all

lemma map_concat_enumerate_filter:
  assumes "\<And>i s. h (g i s) = k s"
  shows "map h (concat (map (\<lambda>(i, s). if P s then [g i s] else []) (enumerate n ss)))
           = map k (filter P ss)"
  by (induction ss arbitrary: n) (simp_all add: assms)

lemma map_map_enumerate:
  assumes "\<And>i s. h (g i s) = k s"
  shows "map h (map (\<lambda>(i, s). g i s) (enumerate n ss)) = map k ss"
  by (induction ss arbitrary: n) (simp_all add: assms)

lemma prepareSegments_sentences:
  "map sentence (prepareSegments tr) =
     concat (map (\<lambda>seg. map trim (filter (\<lambda>s. length (trim s) > 10) (split_sentences (seg_text seg))))
               (segments tr))"
proof -
  have inner: "map sentence
      (let sentences = filter (\<lambda>s. length (trim s) > 10) (split_sentences (seg_text seg))
       in map (\<lambda>(index, s).
            let sentenceTime = seg_start seg
                  + of_nat index * (seg_end seg - seg_start seg) / of_nat (length sentences)
            in \<lparr> segment = ''segment_'' @ show_nat i @ ''_'' @ show_nat index,
                 timestamp = formatTimestamp sentenceTime,
                 sentence = trim s \<rparr>)
          (enumerate 0 sentences))
      = map trim (filter (\<lambda>s. length (trim s) > 10) (split_sentences (seg_text seg)))"
    for i :: nat and seg :: transcription_segment
    unfolding Let_def by (rule map_map_enumerate) simp
  have "map sentence (prepareSegments tr)
      = concat (map (\<lambda>(i, seg). map trim (filter (\<lambda>s. length (trim s) > 10)
                 (split_sentences (seg_text seg)))) (enumerate 0 (segments tr)))"
    unfolding prepareSegments_def map_concat map_map comp_def case_prod_unfold
    using inner by (simp add: case_prod_unfold)
  then show ?thesis
    by (simp add: map_enumerate_ignoring_index)
qed

lemma prepareTranscriptSegments_sentences:
  "map sentence (prepareTranscriptSegments tr) =
     concat (map (\<lambda>seg. map trim (filter (\<lambda>s. length (trim s) > 10) (split_sentences (seg_text seg))))
               (segments tr))"
proof -
  have inner: "map sentence
      (let sentences = filter (\<lambda>s. length (trim s) > 0) (split_sentences (seg_text seg))
       in concat (map (\<lambda>(index, s).
            if length (trim s) > 10
            then [\<lparr> segment = ''segment_'' @ show_nat i @ ''_'' @ show_nat index,
                    timestamp = formatTimestamp (seg_start seg + of_nat index * 2),
                    sentence = trim s \<rparr>]
            else [])
          (enumerate 0 sentences)))
      = map trim (filter (\<lambda>s. length (trim s) > 10) (split_sentences (seg_text seg)))"
    for i :: nat and seg :: transcription_segment
  proof -
    have eq: "(\<lambda>x. trim x \<noteq> [] \<and> 10 < length (trim x)) = (\<lambda>s. 10 < length (trim s))"
      by auto
    show ?thesis
      unfolding Let_def
      by (subst map_concat_enumerate_filter[where k = trim]) (simp_all add: eq)
  qed
  have "map sentence (prepareTranscriptSegments tr)
      = concat (map (\<lambda>(i, seg). map trim (filter (\<lambda>s. length (trim s) > 10)
                 (split_sentences (seg_text seg)))) (enumerate 0 (segments tr)))"
    unfolding prepareTranscriptSegments_def map_concat map_map comp_def case_prod_unfold
    using inner by (simp add: case_prod_unfold)
  then show ?thesis
    by (simp add: map_enumerate_ignoring_index)
qed

lemma long_sentences_nonempty:
  "concat (map (\<lambda>seg. map trim (filter (\<lambda>s. length (trim s) > 10) (split_sentences (seg_text seg))))
               (segments tr)) \<noteq> [] \<longleftrightarrow>
     (\<exists>seg \<in> set (segments tr). \<exists>s \<in> set (split_sentences (seg_text seg)). length (trim s) > 10)"
  by (auto simp: filter_empty_conv)

text \<open>
  C3, as the claim states it, fails: for the transcription \<^verbatim>\<open>Hi. Ok!\<close>, whose sentences are
  all shorter than the threshold, both segmenters return the empty sequence.
\<close>

theorem short_sentences_give_no_segment:
  "prepareSegments short_transcription = [] \<and> prepareTranscriptSegments short_transcription = []"
  by (simp add: prepareSegments_def prepareTranscriptSegments_def short_transcription_def
      split_sentences_def is_sentence_end_def trim_def is_space_def)

text \<open>
  C3, amended. For every transcription both segmenters return, in the order of the
  transcript, exactly one segment for every piece between sentence punctuation whose trimmed
  length exceeds ten characters, carrying the trimmed piece as its sentence. The sequence is
  therefore non-empty exactly when the text has such a piece, and empty otherwise.
\<close>

theorem segmenter_returns_the_long_sentences:
  "map sentence (prepareSegments tr)
     = concat (map (\<lambda>seg. map trim (filter (\<lambda>s. length (trim s) > 10) (split_sentences (seg_text seg))))
                (segments tr))
   \<and> map sentence (prepareTranscriptSegments tr)
     = concat (map (\<lambda>seg. map trim (filter (\<lambda>s. length (trim s) > 10) (split_sentences (seg_text seg))))
                (segments tr))
   \<and> (prepareSegments tr \<noteq> [] \<longleftrightarrow>
        (\<exists>seg \<in> set (segments tr). \<exists>s \<in> set (split_sentences (seg_text seg)). length (trim s) > 10))
   \<and> (prepareTranscriptSegments tr \<noteq> [] \<longleftrightarrow>
        (\<exists>seg \<in> set (segments tr). \<exists>s \<in> set (split_sentences (seg_text seg)). length (trim s) > 10))"
proof -
  note a = prepareSegments_sentences[of tr]
  note b = prepareTranscriptSegments_sentences[of tr]
  have c: "prepareSegments tr \<noteq> [] \<longleftrightarrow> map sentence (prepareSegments tr) \<noteq> []"
    by simp
  have d: "prepareTranscriptSegments tr \<noteq> [] \<longleftrightarrow> map sentence (prepareTranscriptSegments tr) \<noteq> []"
    by simp
  show ?thesis
    using a b c[unfolded a] d[unfolded b] long_sentences_nonempty[of tr] by simp
qed

theorem segmenter_returns_the_long_sentences_witness:
  "map sentence (prepareSegments scenario_transcription)
     = [''The Great Wall of China is visible from space'', boiling_point_claim]
   \<and> map sentence (prepareTranscriptSegments scenario_transcription)
     = [''The Great Wall of China is visible from space'', boiling_point_claim]"
  using segmenter_returns_the_long_sentences [of scenario_transcription]
  by (simp add: scenario_transcription_def boiling_point_claim_def
      split_sentences_def is_sentence_end_def trim_def is_space_def)

subsection \<open>Transcript acquisition cascade\<close>

lemma try_methods_four:
  "try_methods [a, b, c, d] g =
     (case a of Inr r \<Rightarrow> Inr r | Inl _ \<Rightarrow>
      (case b of Inr r \<Rightarrow> Inr r | Inl _ \<Rightarrow>
       (case c of Inr r \<Rightarrow> Inr r | Inl _ \<Rightarrow>
        (case d of Inr r \<Rightarrow> Inr r | Inl _ \<Rightarrow> g))))"
  by (simp split: sum.splits)






lemma truthy_js_or: "truthy b \<Longrightarrow> truthy (js_or a b)"
  by (simp add: js_or_def)

lemma generated_from_content_truthy:
  "truthy content \<Longrightarrow> truthy (transcript (generated_from_content rt content))"
  by (auto simp: generated_from_content_def generated_from_json_def Let_def truthy_js_or
      split: sum.splits)

lemma ultimate_fallback_truthy: "truthy (transcript ultimate_fallback)"
  by (simp add: ultimate_fallback_def)

lemma kimiGenerateContent_total:
  "\<exists>g. kimiGenerateContent rt reply = Inr g \<and> truthy (transcript g)"
  by (auto simp: kimiGenerateContent_def kimiGenerateContent_try_def ultimate_fallback_truthy
      generated_from_content_truthy split: sum.splits option.splits http_reply.splits if_splits)









subsection \<open>Step statuses at the end of a run\<close>

lemma extractRealTranscript_unfolded:
  "extractRealTranscript rt w u =
     (case method1 w u of Inr r \<Rightarrow> Inr r | Inl _ \<Rightarrow>
      (case method2 rt w u of Inr r \<Rightarrow> Inr r | Inl _ \<Rightarrow>
       (case method3 rt w u of Inr r \<Rightarrow> Inr r | Inl _ \<Rightarrow>
        (case method4 rt w u of Inr r \<Rightarrow> Inr r | Inl _ \<Rightarrow> kimiGenerateContent rt (generate_reply w)))))"
  unfolding extractRealTranscript_def by (rule try_methods_four)

text \<open>
  \<^verbatim>\<open>extractRealTranscript\<close> itself never throws. The step that calls it can still fail: the
  progress message of that step holds \<^verbatim>\<open>${transcriptData.transcript.length}\<close>, and a transcript
  generated by the oracle may be an object whose \<^verbatim>\<open>length\<close> cannot be converted to a string.
\<close>

lemma extractRealTranscript_returns: "\<exists>td. extractRealTranscript rt w u = Inr td"
proof -
  obtain g where g: "kimiGenerateContent rt (generate_reply w) = Inr g"
    using kimiGenerateContent_total by blast
  show ?thesis
    unfolding extractRealTranscript_unfolded
    using g by (auto split: sum.splits)
qed

lemma four_steps:
  assumes "map step xs = [a, b, c, d]" and "map status xs = [p, q, r, s]"
  obtains s1 s2 s3 s4 where "xs = [s1, s2, s3, s4]"
    "step s1 = a" "step s2 = b" "step s3 = c" "step s4 = d"
    "status s1 = p" "status s2 = q" "status s3 = r" "status s4 = s"
  using assms by (auto simp: map_eq_Cons_conv)

lemma handleError_first_step:
  assumes "map step (current_steps st) = [''validate'', ''extract'', ''kimiAnalyze'', ''results'']"
    and "map status (current_steps st) = [processing, pending, pending, pending]"
  shows "ends_in_known_shape (handleError e st w)"
proof -
  from assms obtain s1 s2 s3 s4 where st: "current_steps st = [s1, s2, s3, s4]"
    "step s1 = ''validate''" "step s2 = ''extract''" "step s3 = ''kimiAnalyze''" "step s4 = ''results''"
    "status s1 = processing" "status s2 = pending" "status s3 = pending" "status s4 = pending"
    by (rule four_steps)
  show ?thesis
    by (simp add: ends_in_known_shape_def degraded_report_def handleError_def
        mark_current_step_failed_def st Let_def)
qed

lemma handleError_second_step:
  assumes "map step (current_steps st) = [''validate'', ''extract'', ''kimiAnalyze'', ''results'']"
    and "map status (current_steps st) = [completed, processing, pending, pending]"
  shows "ends_in_known_shape (handleError e st w)"
proof -
  from assms obtain s1 s2 s3 s4 where st: "current_steps st = [s1, s2, s3, s4]"
    "step s1 = ''validate''" "step s2 = ''extract''" "step s3 = ''kimiAnalyze''" "step s4 = ''results''"
    "status s1 = completed" "status s2 = processing" "status s3 = pending" "status s4 = pending"
    by (rule four_steps)
  show ?thesis
    by (simp add: ends_in_known_shape_def degraded_report_def handleError_def
        mark_current_step_failed_def st Let_def)
qed

lemma handleError_third_step:
  assumes "map step (current_steps st) = [''validate'', ''extract'', ''kimiAnalyze'', ''results'']"
    and "map status (current_steps st) = [completed, completed, processing, pending]"
  shows "ends_in_known_shape (handleError e st w)"
proof -
  from assms obtain s1 s2 s3 s4 where st: "current_steps st = [s1, s2, s3, s4]"
    "step s1 = ''validate''" "step s2 = ''extract''" "step s3 = ''kimiAnalyze''" "step s4 = ''results''"
    "status s1 = completed" "status s2 = completed" "status s3 = processing" "status s4 = pending"
    by (rule four_steps)
  show ?thesis
    by (simp add: ends_in_known_shape_def degraded_report_def handleError_def
        mark_current_step_failed_def st Let_def)
qed

lemma updateStep_names_statuses:
  assumes "map step (current_steps st) = [''validate'', ''extract'', ''kimiAnalyze'', ''results'']"
    and "map status (current_steps st) = [p, q, r, s]"
  shows "map step (current_steps (updateStep st n new m))
           = [''validate'', ''extract'', ''kimiAnalyze'', ''results'']"
    and "map status (current_steps (updateStep st ''validate'' new m)) = [new, q, r, s]"
    and "map status (current_steps (updateStep st ''extract'' new m)) = [p, new, r, s]"
    and "map status (current_steps (updateStep st ''kimiAnalyze'' new m)) = [p, q, new, s]"
    and "map status (current_steps (updateStep st ''results'' new m)) = [p, q, r, new]"
proof -
  from assms obtain s1 s2 s3 s4 where st: "current_steps st = [s1, s2, s3, s4]"
    "step s1 = ''validate''" "step s2 = ''extract''" "step s3 = ''kimiAnalyze''" "step s4 = ''results''"
    "status s1 = p" "status s2 = q" "status s3 = r" "status s4 = s"
    by (rule four_steps)
  show "map step (current_steps (updateStep st n new m))
           = [''validate'', ''extract'', ''kimiAnalyze'', ''results'']"
    by (simp add: updateStep_def st Let_def)
  show "map status (current_steps (updateStep st ''validate'' new m)) = [new, q, r, s]"
    by (simp add: updateStep_def st Let_def)
  show "map status (current_steps (updateStep st ''extract'' new m)) = [p, new, r, s]"
    by (simp add: updateStep_def st Let_def)
  show "map status (current_steps (updateStep st ''kimiAnalyze'' new m)) = [p, q, new, s]"
    by (simp add: updateStep_def st Let_def)
  show "map status (current_steps (updateStep st ''results'' new m)) = [p, q, r, new]"
    by (simp add: updateStep_def st Let_def)
qed

lemma compile_stage_shape:
  assumes "map step (current_steps st) = [''validate'', ''extract'', ''kimiAnalyze'', ''results'']"
    and "map status (current_steps st) = [completed, completed, completed, pending]"
    and "segments_length_text rt (a_segments ka) = Inr n"
  shows "ends_in_known_shape (compile_stage rt w u td ka st)"
proof -
  from assms(1,2) obtain s1 s2 s3 s4 where st: "current_steps st = [s1, s2, s3, s4]"
    "step s1 = ''validate''" "step s2 = ''extract''" "step s3 = ''kimiAnalyze''" "step s4 = ''results''"
    "status s1 = completed" "status s2 = completed" "status s3 = completed" "status s4 = pending"
    by (rule four_steps)
  show ?thesis
    by (simp add: ends_in_known_shape_def compile_stage_def compileKimiResults_def assms(3)
        updateStep_def st Let_def)
qed

lemma analysis_stage_shape:
  assumes "map step (current_steps st) = [''validate'', ''extract'', ''kimiAnalyze'', ''results'']"
    and "map status (current_steps st) = [completed, completed, pending, pending]"
  shows "ends_in_known_shape (analysis_stage rt w u td st)"
proof -
  let ?st1 = "updateStep st ''kimiAnalyze'' processing ''Kimi K2 fact-checking with sources and evidence...''"
  note s1 = updateStep_names_statuses(1,4)[OF assms, where new = processing]
  show ?thesis
  proof (cases "kimiCompleteAnalysis rt (analysis_reply w) td")
    case (Inl e)
    then show ?thesis
      using handleError_third_step[OF s1(1) s1(2)] by (simp add: analysis_stage_def Let_def)
  next
    case (Inr ka)
    show ?thesis
    proof (cases "segments_length_text rt (a_segments ka)")
      case (Inl e)
      then show ?thesis
        using handleError_third_step[OF s1(1) s1(2)] Inr by (simp add: analysis_stage_def Let_def)
    next
      case n: (Inr n)
      note s2 = updateStep_names_statuses(1,4)[OF s1(1) s1(2), where new = completed]
      show ?thesis
        using compile_stage_shape[OF s2(1) s2(2) n] Inr n by (simp add: analysis_stage_def Let_def)
    qed
  qed
qed

lemma extract_stage_shape:
  assumes "map step (current_steps st) = [''validate'', ''extract'', ''kimiAnalyze'', ''results'']"
    and "map status (current_steps st) = [completed, pending, pending, pending]"
  shows "ends_in_known_shape (extract_stage rt w u st)"
proof -
  obtain td where td: "extractRealTranscript rt w u = Inr td"
    using extractRealTranscript_returns by blast
  note s1 = updateStep_names_statuses(1,3)[OF assms, where new = processing]
  show ?thesis
  proof (cases "length_text rt (transcript td)")
    case (Inl e)
    then show ?thesis
      using handleError_second_step[OF s1(1) s1(2)] td by (simp add: extract_stage_def Let_def)
  next
    case (Inr n)
    note s2 = updateStep_names_statuses(1,3)[OF s1(1) s1(2), where new = completed]
    show ?thesis
      using analysis_stage_shape[OF s2(1) s2(2)] td Inr by (simp add: extract_stage_def Let_def)
  qed
qed

lemma initial_steps_names_statuses:
  "map step initial_steps = [''validate'', ''extract'', ''kimiAnalyze'', ''results'']"
  "map status initial_steps = [pending, pending, pending, pending]"
  by (simp_all add: initial_steps_def)

lemma processActualVideo_shape: "ends_in_known_shape (processActualVideo rt w u)"
proof -
  let ?st0 = "\<lparr> current_steps = initial_steps, emitted = [] \<rparr>"
  have i: "map step (current_steps ?st0) = [''validate'', ''extract'', ''kimiAnalyze'', ''results'']"
    "map status (current_steps ?st0) = [pending, pending, pending, pending]"
    by (simp_all add: initial_steps_names_statuses)
  note s1 = updateStep_names_statuses(1,2)[OF i, where new = processing]
  note s2 = updateStep_names_statuses(1,2)[OF s1(1) s1(2), where new = completed]
  show ?thesis
    using handleError_first_step[OF s1(1) s1(2)] extract_stage_shape[OF s2(1) s2(2)]
    by (simp add: processActualVideo_def Let_def)
qed

lemma rejected_url_run:
  "map status (steps (fst (processActualVideo sample_runtime offline_world ''not a url'')))
     = [error, pending, pending, pending]"
  by (simp add: processActualVideo_def isYouTubeUrl_def sample_runtime_def sample_url_def
      handleError_def mark_current_step_failed_def updateStep_def initial_steps_def Let_def)

text \<open>
  C8, as the claim states it, fails: when the reference is rejected by the validation, the
  run returns its report with the first step in error and the three later steps still
  pending.
\<close>

theorem rejected_url_leaves_steps_pending:
  "map status (steps (fst (processActualVideo sample_runtime offline_world ''not a url'')))
     = [error, pending, pending, pending]
   \<and> pending \<noteq> completed \<and> pending \<noteq> error"
  using rejected_url_run by simp

text \<open>
  A run that fails in its second step. No caption can be fetched, and the oracle answers the
  request for generated content with \<^verbatim>\<open>{"transcript":{"length":{"toString":1}}}\<close>.
  \<^verbatim>\<open>kimiGenerateContent\<close> keeps the parsed object as the transcript, and the progress message
  of the acquisition step cannot be built.
\<close>

lemma nested_length_transcript:
  "extractRealTranscript sample_runtime nested_length_world sample_url =
     Inr \<lparr> transcript = Obj [(''length'', Obj [(''toString'', Num (Fin 1))])],
           videoInfo = \<lparr> vi_title = Str ''Generated Content Analysis'', vi_duration = Str ''5:00'',
                         vi_description = Str ''AI-generated content for fact-checking'' \<rparr> \<rparr>"
  by code_simp

lemma nested_length_run:
  "map status (steps (fst (processActualVideo sample_runtime nested_length_world sample_url)))
     = [completed, error, pending, pending]
   \<and> fullTranscript (fst (processActualVideo sample_runtime nested_length_world sample_url))
     = Str ''Error: Cannot convert object to primitive value''"
  by code_simp

text \<open>
  A run that fails in its third step: the oracle answers the request for generated content
  with a number, which becomes the transcript, and \<^verbatim>\<open>createFallbackAnalysis\<close> cannot split it.
\<close>

lemma numeric_content_run:
  "map status (steps (fst (processActualVideo sample_runtime numeric_content_world sample_url)))
     = [completed, completed, error, pending]
   \<and> fullTranscript (fst (processActualVideo sample_runtime numeric_content_world sample_url))
     = Str ''Error: transcript.split is not a function''"
  by code_simp

text \<open>
  C8, amended. Every run of \<^verbatim>\<open>processActualVideo\<close> returns exactly one report (the function
  is total), and in the step list of that report no step is \<^verbatim>\<open>processing\<close>. A successful run
  has all four steps \<^verbatim>\<open>completed\<close>. A failed run has the step that was processing in
  \<^verbatim>\<open>error\<close>, the steps before it \<^verbatim>\<open>completed\<close> and the steps after it still \<^verbatim>\<open>pending\<close>: the
  first step after a rejected reference, the second step when the length of the acquired
  transcript cannot be written into the progress message, or the third step after a failure
  of the analysis. The report step never ends in \<^verbatim>\<open>error\<close>, and the last snapshot handed to
  \<^verbatim>\<open>onProgress\<close> is the step list of the report.
\<close>

theorem steps_end_completed_or_failed_then_pending:
  "map step (steps (fst (processActualVideo rt w u)))
     = [''validate'', ''extract'', ''kimiAnalyze'', ''results'']
   \<and> processing \<notin> set (map status (steps (fst (processActualVideo rt w u))))
   \<and> (map status (steps (fst (processActualVideo rt w u))) = [completed, completed, completed, completed]
        \<and> platform (fst (processActualVideo rt w u)) = ''YouTube''
      \<or> map status (steps (fst (processActualVideo rt w u))) = [error, pending, pending, pending]
        \<and> platform (fst (processActualVideo rt w u)) = ''Error''
      \<or> map status (steps (fst (processActualVideo rt w u))) = [completed, error, pending, pending]
        \<and> platform (fst (processActualVideo rt w u)) = ''Error''
      \<or> map status (steps (fst (processActualVideo rt w u))) = [completed, completed, error, pending]
        \<and> platform (fst (processActualVideo rt w u)) = ''Error'')
   \<and> last (snd (processActualVideo rt w u)) = steps (fst (processActualVideo rt w u))"
  using processActualVideo_shape[of rt w u] unfolding ends_in_known_shape_def degraded_report_def
  by auto

subsection \<open>Degraded reports\<close>

lemma update_first_decompose:
  assumes "list_ex P xs"
  shows "\<exists>pre x post. xs = pre @ x # post \<and> list_all (\<lambda>y. \<not> P y) pre \<and> P x
           \<and> update_first P f xs = pre @ f x # post"
  using assms
proof (induction xs)
  case Nil
  then show ?case by simp
next
  case (Cons a xs)
  show ?case
  proof (cases "P a")
    case True
    then have "a # xs = [] @ a # xs \<and> list_all (\<lambda>y. \<not> P y) [] \<and> P a
        \<and> update_first P f (a # xs) = [] @ f a # xs"
      by simp
    then show ?thesis by blast
  next
    case False
    with Cons.prems have "list_ex P xs" by simp
    from Cons.IH[OF this] obtain pre x post where
      "xs = pre @ x # post" "list_all (\<lambda>y. \<not> P y) pre" "P x" "update_first P f xs = pre @ f x # post"
      by blast
    with False have "a # xs = (a # pre) @ x # post \<and> list_all (\<lambda>y. \<not> P y) (a # pre) \<and> P x
        \<and> update_first P f (a # xs) = (a # pre) @ f x # post"
      by simp
    then show ?thesis by blast
  qed
qed

text \<open>
  What every error handler does to the step list when a step is processing: the first such
  step becomes \<^verbatim>\<open>error\<close> with the failure's message, nothing else changes, and the new list
  is emitted once more.
\<close>

lemma mark_current_step_failed_effect:
  assumes "list_ex (\<lambda>s. status s = processing) (current_steps st)"
  shows "\<exists>pre s post.
           current_steps st = pre @ s # post
           \<and> list_all (\<lambda>y. status y \<noteq> processing) pre \<and> status s = processing
           \<and> current_steps (mark_current_step_failed e st)
               = pre @ s\<lparr> status := error, message := cross_mark @ '' '' @ error_message e \<rparr> # post
           \<and> emitted (mark_current_step_failed e st)
               = emitted st @ [current_steps (mark_current_step_failed e st)]"
  using update_first_decompose[OF assms,
      of "\<lambda>s. s\<lparr> status := error, message := cross_mark @ '' '' @ error_message e \<rparr>"] assms
  by (auto simp: mark_current_step_failed_def Let_def)

text \<open>
  The degraded reports of \<^verbatim>\<open>ActualVideoProcessor.handleError\<close> and
  \<^verbatim>\<open>FreeVideoProcessor.handleError\<close> have an overall accuracy of 0 and two key findings, the
  failure's message and a suggestion to retry; they return the marked step list and emit it.
\<close>

lemma handleError_degraded:
  "overallAccuracy (fst (handleError e st w)) = Fin 0"
  "keyFindings (fst (handleError e st w))
     = [Str (''Error: '' @ error_message e), Str ''Please try a different video URL'']"
  "steps (fst (handleError e st w)) = current_steps (mark_current_step_failed e st)"
  "snd (handleError e st w) = emitted (mark_current_step_failed e st)"
  by (simp_all add: handleError_def Let_def)

lemma handleError_free_degraded:
  "overallAccuracy (fst (handleError_free e st w)) = Fin 0"
  "keyFindings (fst (handleError_free e st w))
     = [Str (''Processing failed: '' @ error_message e), Str ''Please try again with a different video URL'']"
  "steps (fst (handleError_free e st w)) = current_steps (mark_current_step_failed e st)"
  "snd (handleError_free e st w) = emitted (mark_current_step_failed e st)"
  by (simp_all add: handleError_free_def Let_def)

lemma handleRealProcessingError_degraded:
  "overallAccuracy (fst (handleRealProcessingError e st w)) = Fin 0"
  "keyFindings (fst (handleRealProcessingError e st w)) = [Str (''Processing failed: '' @ error_message e)]"
  "steps (fst (handleRealProcessingError e st w)) = current_steps (mark_current_step_failed e st)"
  "snd (handleRealProcessingError e st w) = emitted (mark_current_step_failed e st)"
  by (simp_all add: handleRealProcessingError_def Let_def)

text \<open>
  C2, at the input where the code departs from the claim. \<^verbatim>\<open>RealVideoProcessor.processVideoReal\<close>
  on a reference that \<^verbatim>\<open>new URL\<close> rejects fails in its first stage and returns the report of
  \<^verbatim>\<open>handleRealProcessingError\<close>: the first step is in error, the overall accuracy is 0, and
  \<^verbatim>\<open>keyFindings\<close> holds the failure's message alone, with no suggestion to retry, which the
  handlers of the two other processors add.
\<close>

theorem real_processor_report_lacks_retry_suggestion:
  "keyFindings (fst (processVideoReal_invalid_url offline_world))
     = [Str ''Processing failed: Failed to extract video metadata: TypeError: Invalid URL'']
   \<and> overallAccuracy (fst (processVideoReal_invalid_url offline_world)) = Fin 0
   \<and> map status (steps (fst (processVideoReal_invalid_url offline_world)))
     = [error, pending, pending, pending, pending, pending]
   \<and> length (snd (processVideoReal_invalid_url offline_world)) = 2"
  by (simp add: processVideoReal_invalid_url_def handleRealProcessingError_def
      mark_current_step_failed_def updateStep_def real_initial_steps_def Let_def)

subsection \<open>Two runs on the same inputs\<close>

lemma world_clock_fields:
  "fetchTranscript (w\<lparr> clock_start := a, clock_finish := b, clock_id := c \<rparr>) = fetchTranscript w"
  "generate_reply (w\<lparr> clock_start := a, clock_finish := b, clock_id := c \<rparr>) = generate_reply w"
  "analysis_reply (w\<lparr> clock_start := a, clock_finish := b, clock_id := c \<rparr>) = analysis_reply w"
  by simp_all

lemma methods_clock:
  "method1 (w\<lparr> clock_start := a, clock_finish := b, clock_id := c \<rparr>) u = method1 w u"
  "method2 rt (w\<lparr> clock_start := a, clock_finish := b, clock_id := c \<rparr>) u = method2 rt w u"
  "method3 rt (w\<lparr> clock_start := a, clock_finish := b, clock_id := c \<rparr>) u = method3 rt w u"
  "method4 rt (w\<lparr> clock_start := a, clock_finish := b, clock_id := c \<rparr>) u = method4 rt w u"
  unfolding method1_def method2_def method3_def method4_def world_clock_fields
  by (rule refl)+

lemma extractRealTranscript_clock:
  "extractRealTranscript rt (w\<lparr> clock_start := a, clock_finish := b, clock_id := c \<rparr>) u
     = extractRealTranscript rt w u"
  unfolding extractRealTranscript_def methods_clock world_clock_fields by (rule refl)

lemma handleError_agree:
  "agree_up_to_time (handleError e st w)
     (handleError e st (w\<lparr> clock_start := a, clock_finish := b, clock_id := c \<rparr>))"
  by (simp add: agree_up_to_time_def handleError_def Let_def)

lemma compile_stage_agree:
  "agree_up_to_time (compile_stage rt w u td ka st)
     (compile_stage rt (w\<lparr> clock_start := a, clock_finish := b, clock_id := c \<rparr>) u td ka st)"
proof (cases "segments_length_text rt (a_segments ka)")
  case (Inl e)
  then show ?thesis
    using handleError_agree by (simp add: compile_stage_def compileKimiResults_def Let_def)
next
  case (Inr n)
  then show ?thesis
    by (simp add: compile_stage_def compileKimiResults_def Let_def agree_up_to_time_def
        butlast_append)
qed

lemma analysis_stage_agree:
  "agree_up_to_time (analysis_stage rt w u td st)
     (analysis_stage rt (w\<lparr> clock_start := a, clock_finish := b, clock_id := c \<rparr>) u td st)"
  using handleError_agree compile_stage_agree
  by (simp add: analysis_stage_def Let_def split: sum.splits)

lemma extract_stage_agree:
  "agree_up_to_time (extract_stage rt w u st)
     (extract_stage rt (w\<lparr> clock_start := a, clock_finish := b, clock_id := c \<rparr>) u st)"
  using handleError_agree analysis_stage_agree
  by (simp add: extract_stage_def Let_def extractRealTranscript_clock split: sum.splits)

lemma processActualVideo_agree:
  "agree_up_to_time (processActualVideo rt w u)
     (processActualVideo rt (w\<lparr> clock_start := a, clock_finish := b, clock_id := c \<rparr>) u)"
  using handleError_agree extract_stage_agree
  by (simp add: processActualVideo_def Let_def)

lemma extractAudioWithRetry_low_draws:
  "extractAudioWithRetry (\<lambda>k. 0.05)
     = Inl (Error ''Audio extraction failed after 3 attempts: Error: Audio extraction failed - network error'')"
  by (simp add: extractAudioWithRetry_def extractAudioWithRetry_from.simps)

lemma extractAudioWithRetry_high_draw:
  "extractAudioWithRetry (\<lambda>k. 0.5) = Inr ''3:45''"
  by (simp add: extractAudioWithRetry_def extractAudioWithRetry_from.simps)

subsection \<open>The scenario run\<close>

lemma scenario_run_key_findings:
  "keyFindings (fst (processActualVideo sample_runtime scenario_world sample_url))
     = [Str ''Analyzed 2 key statements'', Str ''Further verification recommended'',
        Str ''Basic fact-checking completed'', Str ''Analysis powered by Kimi K2 AI'',
        Str ''Processed 2 key statements'', Str ''Processing time: 1.0s'']"
  by code_simp

lemma scenario_rerun_key_findings:
  "keyFindings (fst (processActualVideo sample_runtime (scenario_world\<lparr> clock_finish := 2000 \<rparr>) sample_url))
     = [Str ''Analyzed 2 key statements'', Str ''Further verification recommended'',
        Str ''Basic fact-checking completed'', Str ''Analysis powered by Kimi K2 AI'',
        Str ''Processed 2 key statements'', Str ''Processing time: 2.0s'']"
  by code_simp

lemma scenario_run_statuses:
  "map status (steps (fst (processActualVideo sample_runtime scenario_world sample_url)))
     = [completed, completed, completed, completed]"
  by code_simp

lemma scenario_run_messages:
  "map message (steps (fst (processActualVideo sample_runtime scenario_world sample_url)))
     = [check_mark @ '' Valid YouTube video detected'',
        memo_sign @ '' Real transcript extracted: 81 chars'',
        robot_face @ '' Kimi K2 analysis complete with 2 fact-checked segments'',
        check_mark @ '' Complete! Accuracy: 60%'']"
  by code_simp

text \<open>
  C9, as the claim states it, fails: two runs on the same reference, the same transcript
  source and the same oracle replies, the second taking one second longer, return reports
  whose \<^verbatim>\<open>keyFindings\<close> differ, because \<^verbatim>\<open>compileKimiResults\<close> writes the processing time
  into that list as well.
\<close>

theorem processing_time_enters_key_findings:
  "keyFindings (fst (processActualVideo sample_runtime scenario_world sample_url))
     = [Str ''Analyzed 2 key statements'', Str ''Further verification recommended'',
        Str ''Basic fact-checking completed'', Str ''Analysis powered by Kimi K2 AI'',
        Str ''Processed 2 key statements'', Str ''Processing time: 1.0s'']
   \<and> keyFindings (fst (processActualVideo sample_runtime (scenario_world\<lparr> clock_finish := 2000 \<rparr>) sample_url))
     = [Str ''Analyzed 2 key statements'', Str ''Further verification recommended'',
        Str ''Basic fact-checking completed'', Str ''Analysis powered by Kimi K2 AI'',
        Str ''Processed 2 key statements'', Str ''Processing time: 2.0s'']
   \<and> keyFindings (fst (processActualVideo sample_runtime scenario_world sample_url))
     \<noteq> keyFindings (fst (processActualVideo sample_runtime (scenario_world\<lparr> clock_finish := 2000 \<rparr>) sample_url))"
  by (simp add: scenario_run_key_findings scenario_rerun_key_findings)

text \<open>
  C9, amended. Two runs of \<^verbatim>\<open>processActualVideo\<close> on the same reference, with the same
  behaviour of the transcript source and the same oracle replies, whatever their clocks
  read, emit the same progress snapshots and return reports that are equal in every field
  except \<^verbatim>\<open>videoId\<close>, \<^verbatim>\<open>processingTime\<close> and the last entry of \<^verbatim>\<open>keyFindings\<close>, which on a
  successful run is the line \<^verbatim>\<open>Processing time: \<close> followed by the run's own processing
  time. The simulated audio extraction of \<^verbatim>\<open>VideoProcessor\<close> is a function of its random
  draws as well: it throws when three draws in a row are at most 0.1 and returns when a draw
  exceeds 0.1.
\<close>

theorem runs_agree_up_to_time:
  "agree_up_to_time (processActualVideo rt w u)
     (processActualVideo rt (w\<lparr> clock_start := a, clock_finish := b, clock_id := c \<rparr>) u)
   \<and> extractAudioWithRetry (\<lambda>k. 0.05)
     = Inl (Error ''Audio extraction failed after 3 attempts: Error: Audio extraction failed - network error'')
   \<and> extractAudioWithRetry (\<lambda>k. 0.5) = Inr ''3:45''"
  using processActualVideo_agree extractAudioWithRetry_low_draws extractAudioWithRetry_high_draw
  by simp

theorem runs_agree_up_to_time_witness:
  "agree_up_to_time (processActualVideo sample_runtime scenario_world sample_url)
     (processActualVideo sample_runtime
        (scenario_world\<lparr> clock_start := 5, clock_finish := 2005, clock_id := 2005 \<rparr>) sample_url)
   \<and> last (keyFindings (fst (processActualVideo sample_runtime scenario_world sample_url)))
     = Str ''Processing time: 1.0s''"
  using runs_agree_up_to_time
          [where rt = sample_runtime and w = scenario_world and u = sample_url
             and a = 5 and b = 2005 and c = 2005]
  by (simp add: scenario_run_key_findings)

end
